theory Spec2Isabelle
  imports Complex_Main "HOL-Library.Char_ord" "HOL-Library.List_Lexorder"
begin

section \<open>Values of the host language\<close>

text \<open>
  A JavaScript \<open>number\<close>: \<open>NaN\<close> is kept apart because every comparison with it is false;
  the other values are read as reals. The sources compare numbers with constants and
  multiply and divide them; rounding of the floating-point results is outside the model.
\<close>

datatype number = NaN | Num real

definition num_gt :: "number \<Rightarrow> real \<Rightarrow> bool" where
  "num_gt x r = (case x of NaN \<Rightarrow> False | Num v \<Rightarrow> r < v)"

text \<open>
  Strings are compared by \<open><\<close> and \<open>>\<close> lexicographically by code unit; the order on
  \<^typ>\<open>string\<close> (characters by code, lists lexicographically) is that order. An optional
  field (\<open>field?: string\<close>) is a \<^typ>\<open>string option\<close>, with \<open>None\<close> for \<open>undefined\<close>.
  \<open>truthy\<close> is the truthiness of such a value: \<open>undefined\<close> and the empty string are falsy.
  \<open>js_or a b\<close> is \<open>a || b\<close> on strings.
\<close>

definition truthy :: "string option \<Rightarrow> bool" where
  "truthy v = (case v of None \<Rightarrow> False | Some s \<Rightarrow> s \<noteq> [])"

definition js_or :: "string \<Rightarrow> string \<Rightarrow> string" where
  "js_or a b = (if a \<noteq> [] then a else b)"

definition nonempty :: "string \<Rightarrow> string option" where
  "nonempty s = (if s \<noteq> [] then Some s else None)"

definition is_digit :: "char \<Rightarrow> bool" where
  "is_digit c = (CHR ''0'' \<le> c \<and> c \<le> CHR ''9'')"

definition digit_value :: "char \<Rightarrow> int" where
  "digit_value c = int (of_char c) - 48"

definition digits_value :: "string \<Rightarrow> int" where
  "digits_value s = foldl (\<lambda>a c. 10 * a + digit_value c) 0 s"

definition digit_char :: "int \<Rightarrow> char" where
  "digit_char n = ''0123456789'' ! nat n"

text \<open>
  The white space that \<open>trim\<close> and \<open>parseInt\<close> strip. A character of \<^typ>\<open>string\<close> is a
  code unit below 256; among these the white space and line terminators of the language
  are the tab, the line feed, the vertical tab, the form feed, the carriage return, the
  space and the no-break space.
\<close>

definition is_space :: "char \<Rightarrow> bool" where
  "is_space c = (c = CHR '' '' \<or> c = CHR 0x09 \<or> c = CHR 0x0A \<or> c = CHR 0x0B
     \<or> c = CHR 0x0C \<or> c = CHR 0x0D \<or> c = CHR 0xA0)"

definition trim :: "string \<Rightarrow> string" where
  "trim s = rev (dropWhile is_space (rev (dropWhile is_space s)))"

text \<open>
  \<open>toLowerCase\<close>: among the code units below 256 the upper-case letters are \<open>A\<close> to \<open>Z\<close>
  and the accented capitals from \<open>0xC0\<close> to \<open>0xDE\<close> (the multiplication sign \<open>0xD7\<close>
  apart); the lower-case letter of each lies 32 above it.
\<close>

definition toLowerCase :: "string \<Rightarrow> string" where
  "toLowerCase s =
     map (\<lambda>c. if (CHR ''A'' \<le> c \<and> c \<le> CHR ''Z'')
                  \<or> (CHR 0xC0 \<le> c \<and> c \<le> CHR 0xDE \<and> c \<noteq> CHR 0xD7)
               then char_of (of_char c + (32 :: nat)) else c) s"

text \<open>
  \<open>parseInt(s, 10)\<close>: leading white space, an optional sign, then the longest run of
  decimal digits; \<open>None\<close> is \<open>NaN\<close> (no digit). The value is the exact integer.
\<close>

definition parseInt :: "string \<Rightarrow> int option" where
  "parseInt s =
     (let t = dropWhile is_space s;
          neg = (case t of [] \<Rightarrow> False | c # _ \<Rightarrow> c = CHR ''-'');
          u = (case t of [] \<Rightarrow> [] | c # r \<Rightarrow> if c = CHR ''-'' \<or> c = CHR ''+'' then r else t);
          ds = takeWhile is_digit u
      in if ds = [] then None
         else Some (if neg then - digits_value ds else digits_value ds))"

section \<open>Calendar dates (the \<open>Date\<close> object and the date-fns functions used)\<close>

text \<open>
  A \<open>Date\<close> is a time in milliseconds, or the Invalid Date. Times are counted on the local
  clock from local midnight of 1970-01-01, in a zone whose offset does not change; the
  range limit of \<open>Date\<close> (about a hundred million days either side) is not modelled. The
  calendar is the proleptic Gregorian one; \<open>civil_from_days\<close> and \<open>days_from_civil\<close>
  convert between a day count and year, month (1 to 12) and day of the month.
\<close>

datatype date = Invalid_Date | Time int

definition day_ms :: int where
  "day_ms = 86400000"

definition is_leap :: "int \<Rightarrow> bool" where
  "is_leap y = (y mod 4 = 0 \<and> (y mod 100 \<noteq> 0 \<or> y mod 400 = 0))"

definition days_in_month :: "int \<Rightarrow> int \<Rightarrow> int" where
  "days_in_month y m =
     (if m = 2 then (if is_leap y then 29 else 28)
      else if m = 4 \<or> m = 6 \<or> m = 9 \<or> m = 11 then 30 else 31)"

definition valid_civil :: "int \<Rightarrow> int \<Rightarrow> int \<Rightarrow> bool" where
  "valid_civil y m d = (1 \<le> m \<and> m \<le> 12 \<and> 1 \<le> d \<and> d \<le> days_in_month y m)"

definition days_from_civil :: "int \<Rightarrow> int \<Rightarrow> int \<Rightarrow> int" where
  "days_from_civil y m d =
     (let y' = (if m \<le> 2 then y - 1 else y);
          era = y' div 400;
          yoe = y' mod 400;
          mp = (if 2 < m then m - 3 else m + 9);
          doy = (153 * mp + 2) div 5 + d - 1;
          doe = yoe * 365 + yoe div 4 - yoe div 100 + doy
      in era * 146097 + doe - 719468)"

definition civil_from_days :: "int \<Rightarrow> int \<times> int \<times> int" where
  "civil_from_days z =
     (let n = z + 719468;
          era = n div 146097;
          doe = n mod 146097;
          c = min 3 (doe div 36524);
          r1 = doe - c * 36524;
          q = r1 div 1461;
          r2 = r1 mod 1461;
          yy = min 3 (r2 div 365);
          doy = r2 - yy * 365;
          mp = (5 * doy + 2) div 153;
          m = (if mp < 10 then mp + 3 else mp - 9)
      in (100 * c + 4 * q + yy + era * 400 + (if m \<le> 2 then 1 else 0), m,
          doy - (153 * mp + 2) div 5 + 1))"

text \<open>\<open>getFullYear\<close>, \<open>getMonth\<close> (0 to 11) and \<open>getDay\<close> (0 is Sunday); \<open>None\<close> is \<open>NaN\<close>.\<close>

definition getFullYear :: "date \<Rightarrow> int option" where
  "getFullYear d =
     (case d of Invalid_Date \<Rightarrow> None | Time t \<Rightarrow> Some (fst (civil_from_days (t div day_ms))))"

definition getMonth :: "date \<Rightarrow> int option" where
  "getMonth d =
     (case d of Invalid_Date \<Rightarrow> None
      | Time t \<Rightarrow> Some (fst (snd (civil_from_days (t div day_ms))) - 1))"

definition getDay :: "int \<Rightarrow> int" where
  "getDay t = (t div day_ms + 4) mod 7"

text \<open>\<open>a === b\<close> on two numbers: false when either is \<open>NaN\<close>.\<close>

definition strict_eq :: "int option \<Rightarrow> int option \<Rightarrow> bool" where
  "strict_eq a b = (case a of None \<Rightarrow> False | Some x \<Rightarrow> b = Some x)"

text \<open>
  \<open>format(d, 'yyyy-MM-dd')\<close>. date-fns pads the year of the era to four digits and throws
  a \<open>RangeError\<close> on the Invalid Date, which is the result \<open>None\<close> here.
\<close>

function decimal :: "nat \<Rightarrow> string" where
  "decimal n = (if n < 10 then [digit_char (int n)]
                else decimal (n div 10) @ [digit_char (int (n mod 10))])"
  by pat_completeness auto
termination
  by (relation "measure (\<lambda>n. n)") auto

definition pad2 :: "int \<Rightarrow> string" where
  "pad2 n = [digit_char (n div 10), digit_char (n mod 10)]"

definition pad4 :: "int \<Rightarrow> string" where
  "pad4 n = [digit_char (n div 1000), digit_char (n div 100 mod 10),
             digit_char (n div 10 mod 10), digit_char (n mod 10)]"

definition year_string :: "int \<Rightarrow> string" where
  "year_string y =
     (let e = (if 0 < y then y else 1 - y)
      in if e \<le> 9999 then pad4 e else decimal (nat e))"

definition format_time :: "int \<Rightarrow> string" where
  "format_time t =
     (case civil_from_days (t div day_ms) of
        (y, m, d) \<Rightarrow> year_string y @ ''-'' @ pad2 m @ ''-'' @ pad2 d)"

definition format_ymd :: "date \<Rightarrow> string option" where
  "format_ymd d = (case d of Invalid_Date \<Rightarrow> None | Time t \<Rightarrow> Some (format_time t))"

text \<open>The shape \<open>/^\d{4}-\d{2}-\d{2}$/\<close>.\<close>

definition is_ymd :: "string \<Rightarrow> bool" where
  "is_ymd s =
     (length s = 10 \<and> list_all is_digit (take 4 s) \<and> s ! 4 = CHR ''-''
      \<and> list_all is_digit (take 2 (drop 5 s)) \<and> s ! 7 = CHR ''-''
      \<and> list_all is_digit (drop 8 s))"

text \<open>
  \<open>parseISO\<close> on the calendar-date form \<open>yyyy-MM-dd\<close>, the form in which the application
  stores its dates: local midnight of that day, or the Invalid Date when the month or the
  day of the month does not exist. The library reads further ISO 8601 forms (a time part,
  week dates); on those, and on every other string, the model gives the Invalid Date.
\<close>

definition parseISO :: "string \<Rightarrow> date" where
  "parseISO s =
     (if is_ymd s then
        (let y = digits_value (take 4 s);
             m = digits_value (take 2 (drop 5 s));
             d = digits_value (drop 8 s)
         in if valid_civil y m d then Time (days_from_civil y m d * day_ms)
            else Invalid_Date)
      else Invalid_Date)"

text \<open>
  \<open>addDays\<close>, \<open>addWeeks\<close> and \<open>subWeeks\<close> with a whole number of days or weeks. Where the
  library's result lies beyond the range of \<open>Date\<close> and so is the Invalid Date, the result
  here is the time beyond the range.
\<close>

definition addDays :: "date \<Rightarrow> int \<Rightarrow> date" where
  "addDays d amount =
     (case d of Invalid_Date \<Rightarrow> Invalid_Date | Time t \<Rightarrow> Time (t + amount * day_ms))"

definition addWeeks :: "date \<Rightarrow> int \<Rightarrow> date" where
  "addWeeks d amount = addDays d (amount * 7)"

definition subWeeks :: "date \<Rightarrow> int \<Rightarrow> date" where
  "subWeeks d amount = addWeeks d (- amount)"

text \<open>\<open>startOfWeek\<close> and \<open>endOfWeek\<close> with the option \<open>weekStartsOn\<close>.\<close>

definition startOfWeek :: "date \<Rightarrow> int \<Rightarrow> date" where
  "startOfWeek d weekStartsOn =
     (case d of
        Invalid_Date \<Rightarrow> Invalid_Date
      | Time t \<Rightarrow>
          let day = getDay t;
              diff = (if day < weekStartsOn then 7 else 0) + day - weekStartsOn
          in Time ((t div day_ms - diff) * day_ms))"

definition endOfWeek :: "date \<Rightarrow> int \<Rightarrow> date" where
  "endOfWeek d weekStartsOn =
     (case d of
        Invalid_Date \<Rightarrow> Invalid_Date
      | Time t \<Rightarrow>
          let day = getDay t;
              diff = (if day < weekStartsOn then - 7 else 0) + 6 - (day - weekStartsOn)
          in Time ((t div day_ms + diff) * day_ms + (day_ms - 1)))"

text \<open>
  \<open>differenceInDays(l, r)\<close>: the number of full days from \<open>r\<close> to \<open>l\<close>, rounded toward
  zero; \<open>None\<close> is \<open>NaN\<close>.
\<close>

definition differenceInDays :: "date \<Rightarrow> date \<Rightarrow> int option" where
  "differenceInDays l r =
     (case l of
        Invalid_Date \<Rightarrow> None
      | Time a \<Rightarrow>
          (case r of
             Invalid_Date \<Rightarrow> None
           | Time b \<Rightarrow> Some (if b \<le> a then (a - b) div day_ms else - ((b - a) div day_ms))))"

text \<open>A date given by year, month and day, for the worked examples.\<close>

definition ymd :: "int \<Rightarrow> int \<Rightarrow> int \<Rightarrow> date" where
  "ymd y m d = Time (days_from_civil y m d * day_ms)"

section \<open>Tasks\<close>

datatype task_status = Not_started | In_progress | Completed

datatype task_type = Task | Group

text \<open>
  The \<open>Task\<close> type is declared outside the given sources (\<open>@/types/construction\<close>); the
  record has the fields that the sources read and write. The argument of \<open>createTask\<close>
  carries no id (the store assigns one): it is the record with an empty \<open>task_id\<close>.
  The type tag is written \<open>'group'\<close> or \<open>'task'\<close>; the sources only ever test it against
  \<open>'group'\<close>.
\<close>

record task =
  task_id :: string
  projectId :: string
  name :: string
  category :: string
  subcategory :: "string option"
  subsubcategory :: "string option"
  type :: task_type
  planStartDate :: string
  planEndDate :: string
  planDuration :: int
  cost :: number
  quantity :: "string option"
  responsible :: "string option"
  progress :: number
  status :: task_status
  order :: int
  parentTaskId :: "string option"
  color :: "string option"
  predecessors :: "string list option"
  actualStartDate :: "string option"
  actualEndDate :: "string option"
  progressUpdatedAt :: "string option"
  remarks :: "string option"

text \<open>
  What the component takes from outside: the clock (\<open>new Date()\<close>, as a time), the id
  generator of the store (\<open>getNewTaskId\<close>; the argument counts the calls made so far
  during one import), the date parser of the runtime (\<open>new Date(s)\<close> followed by
  \<open>toISOString().split('T')[0]\<close>; \<open>None\<close> when the parse gives the Invalid Date),
  \<open>parseFloat\<close>, and the batch write of the store (\<open>Some msg\<close> when it throws).
\<close>

record env =
  now :: int
  getNewTaskId :: "nat \<Rightarrow> string"
  dateParse :: "string \<Rightarrow> string option"
  parseFloat :: "string \<Rightarrow> number"
  batchCreateTasks :: "task list \<Rightarrow> string option"

text \<open>\<open>tasks.length > 0 ? Math.max(...tasks.map((t) => t.order || 0)) : 0\<close>\<close>

definition currentMaxOrder :: "task list \<Rightarrow> int" where
  "currentMaxOrder tasks =
     (case tasks of [] \<Rightarrow> 0 | t # ts \<Rightarrow> fold max (map order ts) (order t))"

section \<open>Progress updates (\<open>handleProgressUpdate\<close>)\<close>

text \<open>
  \<open>updateData: Partial<Task>\<close>: the three fields always written, and the three that are
  written on some paths only (\<open>None\<close>: the key is absent from the update).
\<close>

record progress_update =
  upd_progress :: number
  upd_progressUpdatedAt :: string
  upd_status :: task_status
  upd_remarks :: "string option"
  upd_actualStartDate :: "string option"
  upd_actualEndDate :: "string option"

text \<open>
  The body of \<open>handleProgressUpdate\<close> up to the call of \<open>updateTask\<close>. The result is
  \<open>None\<close> when no task has the id (the early \<open>return\<close>), and otherwise the update that
  is handed to the store. A failing write only raises an alert and is not modelled.
\<close>

definition handleProgressUpdate ::
  "task list \<Rightarrow> string \<Rightarrow> number \<Rightarrow> string \<Rightarrow> string \<Rightarrow> progress_update option" where
  "handleProgressUpdate tasks taskId newProgress updateDate reason =
     (case List.find (\<lambda>t. task_id t = taskId) tasks of
        None \<Rightarrow> None
      | Some task \<Rightarrow>
          let isStartingWork = (newProgress = Num (- 1));
              actualProgress = (if isStartingWork then Num 0 else newProgress);
              newStatus =
                (if actualProgress = Num 100 then Completed
                 else if num_gt actualProgress 0 \<or> isStartingWork then In_progress
                 else Not_started);
              startDate =
                (if isStartingWork then Some updateDate
                 else if actualProgress = Num 0 then
                   (if newStatus = In_progress then
                      (if \<not> truthy (actualStartDate task) then Some updateDate else None)
                    else Some [])
                 else if num_gt actualProgress 0 then
                   (case actualStartDate task of
                      None \<Rightarrow> Some (planStartDate task)
                    | Some a \<Rightarrow>
                        if a = [] then Some (planStartDate task)
                        else if updateDate < a then Some updateDate
                        else None)
                 else None);
              endDate =
                (if actualProgress = Num 100 then Some updateDate
                 else if truthy (actualEndDate task) then Some []
                 else None)
          in Some \<lparr> upd_progress = actualProgress,
                    upd_progressUpdatedAt = updateDate,
                    upd_status = newStatus,
                    upd_remarks = (if reason \<noteq> [] then Some reason else None),
                    upd_actualStartDate = startDate,
                    upd_actualEndDate = endDate \<rparr>)"

text \<open>
  Modelled from the spec: \<open>updateTask\<close> of the persistence collaborator
  (\<open>@/lib/firestore\<close>, not among the sources) is a partial merge: a key of the update
  replaces the stored field, an absent key leaves it as it was. The task that the following
  \<open>fetchTasks\<close> reads back is the merged one.
\<close>

definition updateTask :: "task \<Rightarrow> progress_update \<Rightarrow> task" where
  "updateTask t u =
     t \<lparr> progress := upd_progress u,
         progressUpdatedAt := Some (upd_progressUpdatedAt u),
         status := upd_status u,
         remarks := (case upd_remarks u of None \<Rightarrow> remarks t | Some r \<Rightarrow> Some r),
         actualStartDate :=
           (case upd_actualStartDate u of None \<Rightarrow> actualStartDate t | Some d \<Rightarrow> Some d),
         actualEndDate :=
           (case upd_actualEndDate u of None \<Rightarrow> actualEndDate t | Some d \<Rightarrow> Some d) \<rparr>"

text \<open>
  A run of progress updates on one task: each call sees the task as the store holds it
  after the call before.
\<close>

fun progressUpdates :: "task \<Rightarrow> (number \<times> string) list \<Rightarrow> task" where
  "progressUpdates t [] = t"
| "progressUpdates t ((p, d) # us) =
     (case handleProgressUpdate [t] (task_id t) p d [] of
        None \<Rightarrow> progressUpdates t us
      | Some u \<Rightarrow> progressUpdates (updateTask t u) us)"

section \<open>Adding a subtask (\<open>handleAddSubTask\<close>)\<close>

text \<open>The object passed to \<open>setAddTaskInitialData\<close>.\<close>

record initial_data =
  init_parentTaskId :: string
  init_category :: string
  init_subcategory :: string
  init_subsubcategory :: string
  init_type :: task_type
  init_planStartDate :: string

text \<open>
  The \<open>forEach\<close> that keeps the greatest \<open>planEndDate\<close> (by the string order), from the
  first sibling's.
\<close>

definition maxEndDate :: "task list \<Rightarrow> string \<Rightarrow> string" where
  "maxEndDate siblings first =
     fold (\<lambda>t m. if m < planEndDate t then planEndDate t else m) siblings first"

definition siblingTasks :: "task list \<Rightarrow> string \<Rightarrow> task list" where
  "siblingTasks tasks parentId =
     filter (\<lambda>t. parentTaskId t = Some parentId \<and> type t \<noteq> Group) tasks"

definition handleAddSubTask :: "int \<Rightarrow> task list \<Rightarrow> string \<Rightarrow> initial_data option" where
  "handleAddSubTask today tasks parentId =
     (case List.find (\<lambda>t. task_id t = parentId) tasks of
        None \<Rightarrow> None
      | Some parent \<Rightarrow>
          let defaultStartDate =
                (case siblingTasks tasks parentId of
                   s # _ \<Rightarrow>
                     let m = maxEndDate (siblingTasks tasks parentId) (planEndDate s)
                     in (case format_ymd (addDays (parseISO m) 1) of
                           Some nextDay \<Rightarrow> nextDay
                         | None \<Rightarrow> m)
                 | [] \<Rightarrow>
                     if planStartDate parent \<noteq> [] then planStartDate parent
                     else format_time today)
          in Some \<lparr> init_parentTaskId = parentId,
                    init_category = category parent,
                    init_subcategory = (case subcategory parent of None \<Rightarrow> [] | Some s \<Rightarrow> s),
                    init_subsubcategory =
                      (case subsubcategory parent of None \<Rightarrow> [] | Some s \<Rightarrow> s),
                    init_type = Task,
                    init_planStartDate = defaultStartDate \<rparr>)"

section \<open>Adding a task (\<open>handleAddTask\<close>)\<close>

text \<open>
  \<open>newTaskData\<close> is the form's record of values, read through \<open>String(...)\<close>; a key
  that is absent reads \<open>None\<close>. \<open>field\<close> is \<open>String(newTaskData.k || '')\<close>.
\<close>

type_synonym form_data = "string \<rightharpoonup> string"

definition field :: "form_data \<Rightarrow> string \<Rightarrow> string" where
  "field r k = (case r k of None \<Rightarrow> [] | Some v \<Rightarrow> v)"

definition task_type_of :: "string \<Rightarrow> task_type" where
  "task_type_of s = (if s = ''group'' then Group else Task)"

text \<open>
  The argument of \<open>createTask\<close>; \<open>None\<close> when no project is selected (the early
  \<open>return\<close>). A failing write only raises an alert and is not modelled.
\<close>

definition handleAddTask ::
  "env \<Rightarrow> string \<Rightarrow> task list \<Rightarrow> form_data \<Rightarrow> bool \<Rightarrow> task option" where
  "handleAddTask e selectedProjectId tasks newTaskData autoLink =
     (if selectedProjectId = [] then None
      else
        let durationValue = (case newTaskData ''duration'' of None \<Rightarrow> ''1'' | Some v \<Rightarrow> v);
            planDuration =
              max 1 (case parseInt durationValue of
                       None \<Rightarrow> 1 | Some n \<Rightarrow> if n = 0 then 1 else n);
            planStart =
              (case newTaskData ''planStartDate'' of
                 None \<Rightarrow> format_time (now e) | Some v \<Rightarrow> v);
            storageEndDate =
              (case format_ymd (addDays (parseISO planStart) (planDuration - 1)) of
                 Some s \<Rightarrow> s | None \<Rightarrow> planStart);
            parentId = field newTaskData ''parentTaskId'';
            predecessorId =
              (if autoLink then
                 (if parentId \<noteq> [] then
                    (case filter (\<lambda>t. parentTaskId t = Some parentId) tasks of
                       [] \<Rightarrow> None | s # ss \<Rightarrow> Some (task_id (last (s # ss))))
                  else (case tasks of [] \<Rightarrow> None | t # ts \<Rightarrow> Some (task_id (last (t # ts)))))
               else None)
        in Some \<lparr> task_id = [],
                  projectId = selectedProjectId,
                  name = field newTaskData ''name'',
                  category = field newTaskData ''category'',
                  subcategory = nonempty (field newTaskData ''subcategory''),
                  subsubcategory = nonempty (field newTaskData ''subsubcategory''),
                  type = task_type_of (js_or (field newTaskData ''type'') ''task''),
                  planStartDate = planStart,
                  planEndDate = storageEndDate,
                  planDuration = planDuration,
                  cost = (if field newTaskData ''cost'' \<noteq> []
                          then parseFloat e (field newTaskData ''cost'') else Num 0),
                  quantity = nonempty (field newTaskData ''quantity''),
                  responsible = nonempty (field newTaskData ''responsible''),
                  progress = Num 0,
                  status = Not_started,
                  order = currentMaxOrder tasks + 1,
                  parentTaskId = nonempty parentId,
                  color = nonempty (field newTaskData ''color''),
                  predecessors =
                    (case predecessorId of
                       None \<Rightarrow> None | Some p \<Rightarrow> if p \<noteq> [] then Some [p] else None),
                  actualStartDate = None,
                  actualEndDate = None,
                  progressUpdatedAt = None,
                  remarks = None \<rparr>)"

section \<open>The four-week window\<close>

datatype ViewMode = ViewDay | ViewWeek | ViewMonth | ViewOther

datatype GanttWindowMode = WindowProject | Window4w

text \<open>
  The effect that runs after every render: what \<open>chartViewMode\<close> is once it has run.
\<close>

definition viewModeEffect :: "GanttWindowMode \<Rightarrow> ViewMode \<Rightarrow> ViewMode" where
  "viewModeEffect windowMode chartViewMode =
     (if windowMode = Window4w \<and> chartViewMode \<noteq> ViewDay then ViewDay else chartViewMode)"

definition allowedViewModes :: "GanttWindowMode \<Rightarrow> ViewMode list" where
  "allowedViewModes windowMode =
     (if windowMode = Window4w then [ViewDay] else [ViewDay, ViewWeek, ViewMonth])"

text \<open>The two ends of \<open>fourWeekRange\<close> as dates, then as the pair of formatted strings.\<close>

definition fourWeekStart :: "int \<Rightarrow> date" where
  "fourWeekStart today = startOfWeek (subWeeks (Time today) 1) 1"

definition fourWeekEnd :: "int \<Rightarrow> date" where
  "fourWeekEnd today = endOfWeek (addWeeks (Time today) 2) 1"

definition fourWeekRange :: "int \<Rightarrow> (string \<times> string) option" where
  "fourWeekRange today =
     (case format_ymd (fourWeekStart today) of
        None \<Rightarrow> None
      | Some s \<Rightarrow>
          (case format_ymd (fourWeekEnd today) of None \<Rightarrow> None | Some e \<Rightarrow> Some (s, e)))"

record project =
  project_id :: string
  project_name :: string
  startDate :: string
  endDate :: string

definition effectiveStartDate ::
  "GanttWindowMode \<Rightarrow> (string \<times> string) \<Rightarrow> project option \<Rightarrow> string option" where
  "effectiveStartDate windowMode fourWeek selectedProject =
     (if windowMode = Window4w then Some (fst fourWeek) else map_option startDate selectedProject)"

definition effectiveEndDate ::
  "GanttWindowMode \<Rightarrow> (string \<times> string) \<Rightarrow> project option \<Rightarrow> string option" where
  "effectiveEndDate windowMode fourWeek selectedProject =
     (if windowMode = Window4w then Some (snd fourWeek) else map_option endDate selectedProject)"

section \<open>CSV import (\<open>handleImportFile\<close>)\<close>

text \<open>
  A parsed row is a record keyed by the header names; \<open>cell\<close> reads a key and gives the
  empty string for one that is absent (both are falsy, and the sources read cells only
  through \<open>||\<close> chains).
\<close>

type_synonym csv_row = "string \<rightharpoonup> string"

definition cell :: "csv_row \<Rightarrow> string \<Rightarrow> string" where
  "cell row k = (case row k of None \<Rightarrow> [] | Some v \<Rightarrow> v)"

text \<open>The shapes \<open>/^\d{2}\/\d{2}\/\d{4}$/\<close> and \<open>/^\d{2}\/\d{2}\/\d{2}$/\<close>.\<close>

definition is_dmy4 :: "string \<Rightarrow> bool" where
  "is_dmy4 s =
     (length s = 10 \<and> list_all is_digit (take 2 s) \<and> s ! 2 = CHR ''/''
      \<and> list_all is_digit (take 2 (drop 3 s)) \<and> s ! 5 = CHR ''/''
      \<and> list_all is_digit (drop 6 s))"

definition is_dmy2 :: "string \<Rightarrow> bool" where
  "is_dmy2 s =
     (length s = 8 \<and> list_all is_digit (take 2 s) \<and> s ! 2 = CHR ''/''
      \<and> list_all is_digit (take 2 (drop 3 s)) \<and> s ! 5 = CHR ''/''
      \<and> list_all is_digit (drop 6 s))"

text \<open>
  \<open>parseDateString\<close>; the first argument is the runtime's date parser. In the two
  slash forms \<open>split('/')\<close> gives the day, the month and the year as the three digit
  groups.
\<close>

definition parseDateString :: "(string \<Rightarrow> string option) \<Rightarrow> string \<Rightarrow> string option" where
  "parseDateString dp val =
     (if val = [] \<or> val = ''-'' \<or> trim val = [] then None
      else
        let cleaned = trim val;
            day = take 2 cleaned;
            month = take 2 (drop 3 cleaned);
            year = drop 6 cleaned
        in if is_ymd cleaned then Some cleaned
           else if is_dmy4 cleaned then Some (year @ ''-'' @ month @ ''-'' @ day)
           else if is_dmy2 cleaned then
             (let fullYear =
                    (if (case parseInt year of None \<Rightarrow> False | Some n \<Rightarrow> n < 50)
                     then ''20'' @ year else ''19'' @ year)
              in Some (fullYear @ ''-'' @ month @ ''-'' @ day))
           else dp cleaned)"

text \<open>The variables of the loop over the rows.\<close>

record import_state =
  activeGroup :: "(string \<times> string) option"
  count :: nat
  lastTaskId :: "string option"
  tasksToCreate :: "task list"

text \<open>
  What the \<open>try\<close> block can throw: the explicit error on an empty file, the
  \<open>RangeError\<close> of \<open>format\<close> on the Invalid Date, and an error of the store.
\<close>

datatype import_error = Empty_file | Invalid_time_value | Store_error string

definition error_message :: "import_error \<Rightarrow> string" where
  "error_message err =
     (case err of
        Empty_file \<Rightarrow> ''File is empty or invalid''
      | Invalid_time_value \<Rightarrow> ''Invalid time value''
      | Store_error msg \<Rightarrow> msg)"

definition rowName :: "csv_row \<Rightarrow> string" where
  "rowName row =
     js_or (cell row ''Task Name'') (js_or (cell row ''Task'')
       (js_or (cell row ''Name'') (cell row ''name'')))"

definition rowCategory :: "csv_row \<Rightarrow> string" where
  "rowCategory row = js_or (cell row ''Category'') ''Imported''"

definition rowType :: "csv_row \<Rightarrow> task_type" where
  "rowType row = (if toLowerCase (cell row ''Type'') = ''group'' then Group else Task)"

definition rowDuration :: "csv_row \<Rightarrow> int" where
  "rowDuration row =
     (case parseInt (js_or (cell row ''Duration'') (js_or (cell row ''Duration (Days)'') ''1'')) of
        None \<Rightarrow> 1
      | Some n \<Rightarrow> if n = 0 then 1 else n)"

definition rowPlanStart :: "env \<Rightarrow> csv_row \<Rightarrow> string" where
  "rowPlanStart e row =
     (case parseDateString (dateParse e) (js_or (cell row ''Plan Start'') (cell row ''Start'')) of
        None \<Rightarrow> format_time (now e)
      | Some s \<Rightarrow> if s = [] then format_time (now e) else s)"

text \<open>
  One pass of the loop body. A row without a name is skipped (\<open>continue\<close>); a row whose
  end date cannot be formatted throws. The first integer is \<open>currentMaxOrder\<close>.
\<close>

definition importRow ::
  "env \<Rightarrow> int \<Rightarrow> import_state \<Rightarrow> csv_row \<Rightarrow> import_error + import_state" where
  "importRow e maxOrder st row =
     (if rowName row = [] then Inr st
      else
        let cat = rowCategory row;
            subcat = js_or (cell row ''Subcategory'') (cell row ''Sub Category'');
            subsubcat = js_or (cell row ''SubSubcategory'') (cell row ''Sub Subcategory'');
            duration = rowDuration row;
            planStart = rowPlanStart e row
        in case format_ymd (addDays (parseISO planStart) (duration - 1)) of
             None \<Rightarrow> Inl Invalid_time_value
           | Some planEnd \<Rightarrow>
               let ty = rowType row;
                   newTaskId = getNewTaskId e (count st);
                   parentId =
                     (if ty = Group then None
                      else (case activeGroup st of
                              None \<Rightarrow> None
                            | Some g \<Rightarrow> if snd g = cat then Some (fst g) else None));
                   group' =
                     (if ty = Group then Some (newTaskId, cat)
                      else (case activeGroup st of
                              None \<Rightarrow> None
                            | Some g \<Rightarrow> if snd g = cat then Some g else None));
                   preds =
                     (if truthy (lastTaskId st) \<and> ty \<noteq> Group
                      then map_option (\<lambda>l. [l]) (lastTaskId st) else None);
                   created =
                     \<lparr> task_id = newTaskId,
                       projectId = [],
                       name = rowName row,
                       category = cat,
                       subcategory = nonempty subcat,
                       subsubcategory = nonempty subsubcat,
                       type = ty,
                       planStartDate = planStart,
                       planEndDate = planEnd,
                       planDuration = duration,
                       cost = (case parseFloat e (js_or (cell row ''Cost'') ''0'') of
                                 NaN \<Rightarrow> Num 0 | Num v \<Rightarrow> Num v),
                       quantity = nonempty (cell row ''Quantity''),
                       responsible = nonempty (cell row ''Responsible''),
                       progress =
                         (case parseFloat e (js_or (cell row ''Progress'')
                                 (js_or (cell row ''Progress (%)'') ''0'')) of
                            NaN \<Rightarrow> Num 0 | Num v \<Rightarrow> Num v),
                       status = Not_started,
                       order = maxOrder + int (count st) + 1,
                       parentTaskId = parentId,
                       color = None,
                       predecessors = preds,
                       actualStartDate = None,
                       actualEndDate = None,
                       progressUpdatedAt = None,
                       remarks = None \<rparr>
               in Inr \<lparr> activeGroup = group',
                        count = Suc (count st),
                        lastTaskId = (if ty \<noteq> Group then Some newTaskId else lastTaskId st),
                        tasksToCreate = tasksToCreate st @ [created] \<rparr>)"

fun importRows ::
  "env \<Rightarrow> int \<Rightarrow> import_state \<Rightarrow> csv_row list \<Rightarrow> import_error + import_state" where
  "importRows e maxOrder st [] = Inr st"
| "importRows e maxOrder st (row # rows) =
     (case importRow e maxOrder st row of
        Inl err \<Rightarrow> Inl err
      | Inr st' \<Rightarrow> importRows e maxOrder st' rows)"

text \<open>The slices \<open>tasksToCreate.slice(i, i + chunkSize)\<close> for \<open>i = 0, chunkSize, ...\<close>.\<close>

function chunksOf :: "nat \<Rightarrow> 'a list \<Rightarrow> 'a list list" where
  "chunksOf n xs = (if n = 0 \<or> xs = [] then [] else take n xs # chunksOf n (drop n xs))"
  by pat_completeness auto
termination
  by (relation "measure (\<lambda>(n, xs). length xs)") auto

text \<open>The batch writes, in order, up to the first one that throws.\<close>

fun writeChunks :: "(task list \<Rightarrow> string option) \<Rightarrow> task list list \<Rightarrow> string option" where
  "writeChunks w [] = None"
| "writeChunks w (c # cs) = (case w c of Some msg \<Rightarrow> Some msg | None \<Rightarrow> writeChunks w cs)"

text \<open>
  The outcome as the user sees it: the alert \<open>Import failed: ...\<close> with the error, or
  the alert \<open>Import completed: n records.\<close>, here with the batches that were written.
\<close>

datatype import_outcome = Import_failed import_error | Import_completed nat "task list list"

definition initialImportState :: "task list \<Rightarrow> import_state" where
  "initialImportState tasks =
     \<lparr> activeGroup = None,
       count = 0,
       lastTaskId = (case tasks of [] \<Rightarrow> None | t # ts \<Rightarrow> Some (task_id (last (t # ts)))),
       tasksToCreate = [] \<rparr>"

text \<open>
  \<open>handleImportFile\<close> from the result of \<open>parseCSV\<close> on (the checks on the chosen file
  and the confirmation dialogue come before it).
\<close>

definition handleImportFile :: "env \<Rightarrow> task list \<Rightarrow> csv_row list \<Rightarrow> import_outcome" where
  "handleImportFile e tasks data =
     (if data = [] then Import_failed Empty_file
      else
        (case importRows e (currentMaxOrder tasks) (initialImportState tasks) data of
           Inl err \<Rightarrow> Import_failed err
         | Inr st \<Rightarrow>
             (case writeChunks (batchCreateTasks e) (chunksOf 450 (tasksToCreate st)) of
                Some msg \<Rightarrow> Import_failed (Store_error msg)
              | None \<Rightarrow> Import_completed (count st) (chunksOf 450 (tasksToCreate st)))))"

section \<open>S-curve coordinates (\<open>getX\<close> of \<open>SCurveGraph\<close>)\<close>

text \<open>\<open>timeline.items?.[0] ?? timeRange.start\<close>\<close>

definition timelineStart :: "date list \<Rightarrow> date \<Rightarrow> date" where
  "timelineStart timelineItems rangeStart =
     (case timelineItems of [] \<Rightarrow> rangeStart | x # _ \<Rightarrow> x)"

text \<open>
  \<open>getX\<close>, with the values it closes over as arguments: the timeline start, the view
  mode (a string) and the cell width.
\<close>

definition getX :: "date \<Rightarrow> string \<Rightarrow> real \<Rightarrow> date \<Rightarrow> number" where
  "getX start viewMode cellWidth d =
     (case differenceInDays d start of
        None \<Rightarrow> NaN
      | Some diff \<Rightarrow>
          if viewMode = ''day'' then Num (of_int diff * cellWidth)
          else if viewMode = ''week'' then Num ((of_int diff / 7) * cellWidth)
          else Num ((of_int diff / 30.44) * cellWidth))"

text \<open>
  The contract of the coordinate mapper in the words of the specification, for
  comparison with \<open>getX\<close>: by zoom level, on the number of whole days from the timeline
  start to the date. The contract names the day, week and month levels; any other value
  is given the month rule here.
\<close>

definition dateToX_contract :: "ViewMode \<Rightarrow> int \<Rightarrow> real \<Rightarrow> real" where
  "dateToX_contract zoom wholeDays cellWidth =
     (case zoom of
        ViewDay \<Rightarrow> of_int wholeDays * cellWidth
      | ViewWeek \<Rightarrow> of_int wholeDays / 7 * cellWidth
      | _ \<Rightarrow> of_int wholeDays / 30.44 * cellWidth)"

section \<open>The group row of the timeline header (\<open>TimelineHeader\<close>)\<close>

record timeline =
  items :: "date list"
  groups :: "date list"
  groupFormat :: string
  itemFormat :: string

definition sameMonthAndYear :: "date \<Rightarrow> date \<Rightarrow> bool" where
  "sameMonthAndYear item g =
     (strict_eq (getMonth item) (getMonth g) \<and> strict_eq (getFullYear item) (getFullYear g))"

definition sameYear :: "date \<Rightarrow> date \<Rightarrow> bool" where
  "sameYear item g = strict_eq (getFullYear item) (getFullYear g)"

text \<open>The \<open>width\<close> computed for one group in the top row of the header.\<close>

definition groupWidth :: "ViewMode \<Rightarrow> timeline \<Rightarrow> real \<Rightarrow> date \<Rightarrow> real" where
  "groupWidth viewMode tline cellWidth g =
     (if viewMode = ViewDay then
        of_nat (length (filter (\<lambda>item. sameMonthAndYear item g) (items tline))) * cellWidth
      else if viewMode = ViewWeek then
        of_nat (length (filter (\<lambda>item. sameMonthAndYear item g) (items tline))) * cellWidth
      else if viewMode = ViewMonth then
        of_nat (length (filter (\<lambda>m. sameYear m g) (items tline))) * cellWidth
      else 12 * cellWidth)"

definition groupWidths :: "ViewMode \<Rightarrow> timeline \<Rightarrow> real \<Rightarrow> real list" where
  "groupWidths viewMode tline cellWidth = map (groupWidth viewMode tline cellWidth) (groups tline)"

text \<open>
  An item belongs to a group, in the words of the specification: at the day and week
  levels when it lies in the group's month of the group's year, at the month level when it
  lies in the group's year. Year and month are those of the calendar days of the two
  dates; the Invalid Date lies in no month.
\<close>

definition belongsToGroup :: "ViewMode \<Rightarrow> date \<Rightarrow> date \<Rightarrow> bool" where
  "belongsToGroup zoom item g =
     (case item of
        Invalid_Date \<Rightarrow> False
      | Time a \<Rightarrow>
          (case g of
             Invalid_Date \<Rightarrow> False
           | Time b \<Rightarrow>
               (case civil_from_days (a div day_ms) of
                  (y, m, d) \<Rightarrow>
                    (case civil_from_days (b div day_ms) of
                       (y', m', d') \<Rightarrow>
                         if zoom = ViewMonth then y = y' else y = y' \<and> m = m'))))"

section \<open>Sample data for the worked examples\<close>

definition sample_task :: task where
  "sample_task =
     \<lparr> task_id = ''t1'', projectId = ''p1'', name = ''Footing'', category = ''Structure'',
       subcategory = None, subsubcategory = None, type = Task,
       planStartDate = ''2024-01-01'', planEndDate = ''2024-01-31'', planDuration = 31,
       cost = Num 0, quantity = None, responsible = None,
       progress = Num 0, status = Not_started, order = 1, parentTaskId = None,
       color = None, predecessors = None, actualStartDate = None, actualEndDate = None,
       progressUpdatedAt = None, remarks = None \<rparr>"

definition completed_task :: task where
  "completed_task =
     sample_task \<lparr> progress := Num 100, status := Completed,
       actualStartDate := Some ''2024-01-05'', actualEndDate := Some ''2024-01-20'',
       progressUpdatedAt := Some ''2024-01-20'' \<rparr>"

text \<open>
  A day-level timeline from 2024-01-30 to 2024-02-02: two partial months.
\<close>

definition sample_timeline :: timeline where
  "sample_timeline =
     \<lparr> items = [ymd 2024 1 30, ymd 2024 1 31, ymd 2024 2 1, ymd 2024 2 2],
       groups = [ymd 2024 1 1, ymd 2024 2 1],
       groupFormat = ''MMMM yyyy'',
       itemFormat = ''d'' \<rparr>"

text \<open>
  An environment on 2024-01-10 at ten in the morning: ids \<open>id0\<close>, \<open>id1\<close>, ..., a date
  parser that reads one English date, a \<open>parseFloat\<close> that reads integers, and a store
  that accepts every batch.
\<close>

definition sample_env :: env where
  "sample_env =
     \<lparr> now = 1704880800000,
       getNewTaskId = (\<lambda>k. ''id'' @ decimal k),
       dateParse = (\<lambda>s. if s = ''March 5, 2024'' then Some ''2024-03-05'' else None),
       parseFloat = (\<lambda>s. case parseInt s of None \<Rightarrow> NaN | Some n \<Rightarrow> Num (of_int n)),
       batchCreateTasks = (\<lambda>ts. None) \<rparr>"

definition group_row :: csv_row where
  "group_row = map_of
     [(''Type'', ''Group''), (''Task Name'', ''Structure works''), (''Category'', ''Structure''),
      (''Plan Start'', ''2024-01-10''), (''Duration'', ''30'')]"

definition task_row_a :: csv_row where
  "task_row_a = map_of
     [(''Type'', ''task''), (''Task Name'', ''Footing''), (''Category'', ''Structure''),
      (''Plan Start'', ''2024-01-10''), (''Duration'', ''5'')]"

definition task_row_b :: csv_row where
  "task_row_b = map_of
     [(''Type'', ''task''), (''Task Name'', ''Columns''), (''Category'', ''Structure''),
      (''Plan Start'', ''15/01/2024''), (''Duration'', ''10'')]"

definition other_row :: csv_row where
  "other_row = map_of
     [(''Task Name'', ''Painting''), (''Category'', ''Finishes''), (''Plan Start'', ''01/03/24'')]"

definition undated_row :: csv_row where
  "undated_row = map_of [(''Task Name'', ''Handover''), (''Plan Start'', ''-'')]"

definition nameless_row :: csv_row where
  "nameless_row = map_of [(''Category'', ''Structure''), (''Plan Start'', ''2024-01-10'')]"

definition negative_duration_row :: csv_row where
  "negative_duration_row = map_of
     [(''Task Name'', ''Backfill''), (''Plan Start'', ''2024-01-10''), (''Duration'', ''-3'')]"

definition impossible_date_row :: csv_row where
  "impossible_date_row = map_of [(''Task Name'', ''Roof''), (''Plan Start'', ''2024-02-30'')]"

definition impossible_slash_row :: csv_row where
  "impossible_slash_row = map_of
     [(''Task Name'', ''Cladding''), (''Plan Start'', ''31/02/2024'')]"

definition unreadable_row :: csv_row where
  "unreadable_row = map_of [(''Task Name'', ''Snagging''), (''Plan Start'', ''soon'')]"

text \<open>A group with two subtasks, and a subtask whose dates were left empty.\<close>

definition sample_group :: task where
  "sample_group = sample_task \<lparr> task_id := ''g1'', name := ''Structure works'', type := Group,
     subcategory := Some ''Concrete'' \<rparr>"

definition sample_child_a :: task where
  "sample_child_a = sample_task \<lparr> task_id := ''c1'', parentTaskId := Some ''g1'',
     planStartDate := ''2024-01-01'', planEndDate := ''2024-01-31'' \<rparr>"

definition sample_child_b :: task where
  "sample_child_b = sample_task \<lparr> task_id := ''c2'', parentTaskId := Some ''g1'',
     planStartDate := ''2024-02-01'', planEndDate := ''2024-02-10'' \<rparr>"

definition undated_child :: task where
  "undated_child = sample_task \<lparr> task_id := ''c3'', parentTaskId := Some ''g1'',
     planStartDate := [], planEndDate := [], planDuration := 1 \<rparr>"

definition sample_project :: project where
  "sample_project =
     \<lparr> project_id = ''p1'', project_name = ''Warehouse'', startDate = ''2024-01-01'',
       endDate = ''2024-12-31'' \<rparr>"

section \<open>Calendar arithmetic\<close>

lemma day_ms_pos: "0 < day_ms"
  by (simp add: day_ms_def)

lemma div_day_shift: "(t + k * day_ms) div day_ms = t div day_ms + k"
  using day_ms_pos by simp

lemma div_day_mult: "(k * day_ms) div day_ms = k"
  using day_ms_pos by simp

lemma div_day_last_ms: "(k * day_ms + (day_ms - 1)) div day_ms = k"
proof -
  have "(k * day_ms + (day_ms - 1)) div day_ms = k + (day_ms - 1) div day_ms"
    using day_ms_pos by (simp add: add.commute)
  then show ?thesis using day_ms_pos by (simp add: div_pos_pos_trivial)
qed

lemma whole_days_exact:
  assumes "s mod day_ms = 0" and "d mod day_ms = 0"
  shows "(if s \<le> d then (d - s) div day_ms else - ((s - d) div day_ms)) * day_ms = d - s"
proof -
  from assms obtain a b where "s = a * day_ms" "d = b * day_ms"
    by (metis mod_eq_0_iff_dvd dvd_def mult.commute)
  then show ?thesis
    using day_ms_pos by (simp add: left_diff_distrib [symmetric])
qed

lemma doe_parts:
  fixes doe :: int
  assumes "0 \<le> doe" "doe < 146097"
  defines "c \<equiv> min 3 (doe div 36524)"
  defines "r1 \<equiv> doe - c * 36524"
  defines "q \<equiv> r1 div 1461"
  defines "r2 \<equiv> r1 mod 1461"
  defines "yy \<equiv> min 3 (r2 div 365)"
  defines "doy \<equiv> r2 - yy * 365"
  shows "0 \<le> c \<and> c \<le> 3 \<and> 0 \<le> q \<and> q \<le> 24 \<and> 0 \<le> yy \<and> yy \<le> 3 \<and> 0 \<le> doy \<and> doy \<le> 365
    \<and> (doy = 365 \<longrightarrow> yy = 3 \<and> (q < 24 \<or> c = 3))
    \<and> doe = c * 36524 + q * 1461 + yy * 365 + doy"
proof -
  define a where "a = doe div 36524"
  define b where "b = doe mod 36524"
  have ab: "doe = 36524 * a + b" "0 \<le> b" "b < 36524"
    by (simp_all add: a_def b_def)
  have a_rng: "0 \<le> a" "a \<le> 4" using ab assms(1,2) by linarith+
  have c_eq: "c = min 3 a" by (simp add: c_def a_def)
  have c_rng: "0 \<le> c" "c \<le> 3" using a_rng c_eq by (simp_all add: min_def)
  have r1_rng: "0 \<le> r1" "r1 \<le> 36524" "r1 \<le> 36523 \<or> c = 3"
    using ab a_rng c_eq assms(2) unfolding r1_def by (auto simp: min_def)
  have qr: "r1 = 1461 * q + r2" "0 \<le> r2" "r2 < 1461"
    by (simp_all add: q_def r2_def)
  have q_rng: "0 \<le> q" "q \<le> 24" using qr r1_rng by linarith+
  have r2_top: "q = 24 \<longrightarrow> r2 \<le> 1459 \<or> c = 3" using qr r1_rng by linarith
  define e where "e = r2 div 365"
  define f where "f = r2 mod 365"
  have ef: "r2 = 365 * e + f" "0 \<le> f" "f < 365" by (simp_all add: e_def f_def)
  have e_rng: "0 \<le> e" "e \<le> 4" using ef qr by linarith+
  have yy_eq: "yy = min 3 e" by (simp add: yy_def e_def)
  have yy_rng: "0 \<le> yy" "yy \<le> 3" using e_rng yy_eq by (simp_all add: min_def)
  have doy_rng: "0 \<le> doy" "doy \<le> 365" "doy = 365 \<longrightarrow> yy = 3 \<and> r2 = 1460"
    using ef e_rng yy_eq qr unfolding doy_def by (auto simp: min_def)
  have last: "doy = 365 \<longrightarrow> yy = 3 \<and> (q < 24 \<or> c = 3)"
    using doy_rng(3) r2_top q_rng by linarith
  have sum: "doe = c * 36524 + q * 1461 + yy * 365 + doy"
    using qr(1) unfolding doy_def r1_def by linarith
  show ?thesis using c_rng q_rng yy_rng doy_rng(1,2) last sum by blast
qed


lemma month_parts:
  fixes doy :: int
  assumes "0 \<le> doy" "doy \<le> 365"
  defines "mp \<equiv> (5 * doy + 2) div 153"
  defines "d \<equiv> doy - (153 * mp + 2) div 5 + 1"
  defines "m \<equiv> (if mp < 10 then mp + 3 else mp - 9)"
  shows "0 \<le> mp \<and> mp \<le> 11 \<and> 1 \<le> m \<and> m \<le> 12 \<and> 1 \<le> d \<and> d \<le> 31
    \<and> (m = 4 \<or> m = 6 \<or> m = 9 \<or> m = 11 \<longrightarrow> d \<le> 30)
    \<and> (m = 2 \<longrightarrow> d \<le> 29 \<and> (d = 29 \<longrightarrow> doy = 365))
    \<and> (if 2 < m then m - 3 else m + 9) = mp
    \<and> (153 * mp + 2) div 5 + d - 1 = doy
    \<and> (m \<le> 2 \<longleftrightarrow> 306 \<le> doy)"
proof -
  define r where "r = (5 * doy + 2) mod 153"
  have dm: "5 * doy + 2 = 153 * mp + r" "0 \<le> r" "r < 153"
    by (simp_all add: mp_def r_def)
  have lo: "153 * mp \<le> 5 * doy + 2" and hi: "5 * doy + 2 < 153 * mp + 153"
    using dm by linarith+
  have rng: "0 \<le> mp" "mp \<le> 11" using lo hi assms(1,2) by linarith+
  then have "mp = 0 \<or> mp = 1 \<or> mp = 2 \<or> mp = 3 \<or> mp = 4 \<or> mp = 5
    \<or> mp = 6 \<or> mp = 7 \<or> mp = 8 \<or> mp = 9 \<or> mp = 10 \<or> mp = 11"
    by arith
  then consider "mp = 0" | "mp = 1" | "mp = 2" | "mp = 3" | "mp = 4" | "mp = 5"
    | "mp = 6" | "mp = 7" | "mp = 8" | "mp = 9" | "mp = 10" | "mp = 11"
    by blast
  then show ?thesis
  proof cases
    case 1 with lo hi assms(1,2) show ?thesis unfolding d_def m_def by simp
  next
    case 2 with lo hi assms(1,2) show ?thesis unfolding d_def m_def by simp
  next
    case 3 with lo hi assms(1,2) show ?thesis unfolding d_def m_def by simp
  next
    case 4 with lo hi assms(1,2) show ?thesis unfolding d_def m_def by simp
  next
    case 5 with lo hi assms(1,2) show ?thesis unfolding d_def m_def by simp
  next
    case 6 with lo hi assms(1,2) show ?thesis unfolding d_def m_def by simp
  next
    case 7 with lo hi assms(1,2) show ?thesis unfolding d_def m_def by simp
  next
    case 8 with lo hi assms(1,2) show ?thesis unfolding d_def m_def by simp
  next
    case 9 with lo hi assms(1,2) show ?thesis unfolding d_def m_def by simp
  next
    case 10 with lo hi assms(1,2) show ?thesis unfolding d_def m_def by simp
  next
    case 11 with lo hi assms(1,2) show ?thesis unfolding d_def m_def by simp
  next
    case 12 with lo hi assms(1,2) show ?thesis unfolding d_def m_def by simp
  qed
qed


lemma yoe_divs:
  fixes c q yy :: int
  assumes "0 \<le> c" "0 \<le> q" "q \<le> 24" "0 \<le> yy" "yy \<le> 3"
  shows "(100 * c + 4 * q + yy) div 4 = 25 * c + q"
    and "(100 * c + 4 * q + yy) div 100 = c"
proof -
  show "(100 * c + 4 * q + yy) div 4 = 25 * c + q"
    by (rule int_div_pos_eq [where r = yy]) (use assms in simp_all)
  show "(100 * c + 4 * q + yy) div 100 = c"
    by (rule int_div_pos_eq [where r = "4 * q + yy"]) (use assms in simp_all)
qed


lemma civil_from_days_shape:
  obtains era c q yy doy mp m :: int where
    "0 \<le> c" "c \<le> 3" "0 \<le> q" "q \<le> 24" "0 \<le> yy" "yy \<le> 3" "0 \<le> doy" "doy \<le> 365"
    "doy = 365 \<longrightarrow> yy = 3 \<and> (q < 24 \<or> c = 3)"
    "z + 719468 = era * 146097 + c * 36524 + q * 1461 + yy * 365 + doy"
    "mp = (5 * doy + 2) div 153"
    "m = (if mp < 10 then mp + 3 else mp - 9)"
    "civil_from_days z =
       (100 * c + 4 * q + yy + era * 400 + (if m \<le> 2 then 1 else 0), m,
        doy - (153 * mp + 2) div 5 + 1)"
proof -
  define n where "n = z + 719468"
  define era where "era = n div 146097"
  define doe where "doe = n mod 146097"
  define c where "c = min 3 (doe div 36524)"
  define r1 where "r1 = doe - c * 36524"
  define q where "q = r1 div 1461"
  define r2 where "r2 = r1 mod 1461"
  define yy where "yy = min 3 (r2 div 365)"
  define doy where "doy = r2 - yy * 365"
  define mp where "mp = (5 * doy + 2) div 153"
  define m where "m = (if mp < 10 then mp + 3 else mp - 9)"
  have doe_rng: "0 \<le> doe" "doe < 146097" by (simp_all add: doe_def)
  have n_eq: "n = era * 146097 + doe" by (simp add: era_def doe_def)
  note P = doe_parts [OF doe_rng, folded c_def, folded r1_def, folded q_def r2_def,
      folded yy_def, folded doy_def]
  have res: "civil_from_days z =
      (100 * c + 4 * q + yy + era * 400 + (if m \<le> 2 then 1 else 0), m,
       doy - (153 * mp + 2) div 5 + 1)"
    unfolding civil_from_days_def Let_def n_def era_def doe_def c_def r1_def q_def r2_def
      yy_def doy_def mp_def m_def by (rule refl)
  have sum: "z + 719468 = era * 146097 + c * 36524 + q * 1461 + yy * 365 + doy"
    using P n_eq n_def by linarith
  show thesis
    using that [of c q yy doy era mp m] P sum mp_def m_def res by blast
qed

lemma civil_from_days_inverse:
  assumes "civil_from_days z = (y, m, d)"
  shows "days_from_civil y m d = z"
proof -
  obtain era c q yy doy mp m' :: int where
    B: "0 \<le> c" "c \<le> 3" "0 \<le> q" "q \<le> 24" "0 \<le> yy" "yy \<le> 3"
    and D: "0 \<le> doy" "doy \<le> 365"
    and sum: "z + 719468 = era * 146097 + c * 36524 + q * 1461 + yy * 365 + doy"
    and mp_def: "mp = (5 * doy + 2) div 153"
    and m'_def: "m' = (if mp < 10 then mp + 3 else mp - 9)"
    and res: "civil_from_days z =
       (100 * c + 4 * q + yy + era * 400 + (if m' \<le> 2 then 1 else 0), m',
        doy - (153 * mp + 2) div 5 + 1)"
    by (rule civil_from_days_shape [of z]) blast
  define yoe where "yoe = 100 * c + 4 * q + yy"
  note M = month_parts [OF D, folded mp_def, folded m'_def]
  have trip: "(y, m, d) =
       (100 * c + 4 * q + yy + era * 400 + (if m' \<le> 2 then 1 else 0), m',
        doy - (153 * mp + 2) div 5 + 1)"
    using assms(1) res by (rule trans [OF sym])
  have m_eq: "m = m'" and d_eq: "d = doy - (153 * mp + 2) div 5 + 1"
    and y_eq: "y = yoe + era * 400 + (if m' \<le> 2 then 1 else 0)"
    unfolding yoe_def using trip by blast+
  have yoe_rng: "0 \<le> yoe" "yoe < 400" using B unfolding yoe_def by linarith+
  have y': "(if m \<le> 2 then y - 1 else y) = era * 400 + yoe" using y_eq m_eq by simp
  have e1: "(era * 400 + yoe) div 400 = era"
    by (rule int_div_pos_eq [where r = yoe]) (use yoe_rng in simp_all)
  have e2: "(era * 400 + yoe) mod 400 = yoe"
    by (rule int_mod_pos_eq [where q = era]) (use yoe_rng in simp_all)
  from M have "(if 2 < m' then m' - 3 else m' + 9) = mp" by blast
  then have mp': "(if 2 < m then m - 3 else m + 9) = mp" unfolding m_eq .
  have doy': "(153 * mp + 2) div 5 + d - 1 = doy" using d_eq by simp
  have yd: "yoe div 4 = 25 * c + q" "yoe div 100 = c"
    unfolding yoe_def using yoe_divs [of c q yy] B by simp_all
  have doe': "yoe * 365 + yoe div 4 - yoe div 100 + doy =
      c * 36524 + q * 1461 + yy * 365 + doy"
    by (simp only: yd) (simp add: yoe_def)
  show ?thesis
    unfolding days_from_civil_def Let_def y' e1 e2 mp' doy' doe'
    using sum by linarith
qed

lemma civil_from_days_valid:
  assumes "civil_from_days z = (y, m, d)"
  shows "valid_civil y m d"
proof -
  obtain era c q yy doy mp m' :: int where
    B: "0 \<le> c" "c \<le> 3" "0 \<le> q" "q \<le> 24" "0 \<le> yy" "yy \<le> 3"
    and D: "0 \<le> doy" "doy \<le> 365"
    and L: "doy = 365 \<longrightarrow> yy = 3 \<and> (q < 24 \<or> c = 3)"
    and mp_def: "mp = (5 * doy + 2) div 153"
    and m'_def: "m' = (if mp < 10 then mp + 3 else mp - 9)"
    and res: "civil_from_days z =
       (100 * c + 4 * q + yy + era * 400 + (if m' \<le> 2 then 1 else 0), m',
        doy - (153 * mp + 2) div 5 + 1)"
    by (rule civil_from_days_shape [of z]) blast
  note M = month_parts [OF D, folded mp_def, folded m'_def]
  have trip: "(y, m, d) =
       (100 * c + 4 * q + yy + era * 400 + (if m' \<le> 2 then 1 else 0), m',
        doy - (153 * mp + 2) div 5 + 1)"
    using assms(1) res by (rule trans [OF sym])
  have m_eq: "m = m'" and d_eq: "d = doy - (153 * mp + 2) div 5 + 1"
    and y_eq: "y = 100 * c + 4 * q + yy + era * 400 + (if m' \<le> 2 then 1 else 0)"
    using trip by blast+
  have rng: "1 \<le> m" "m \<le> 12" "1 \<le> d" "d \<le> 31"
    and thirty: "m = 4 \<or> m = 6 \<or> m = 9 \<or> m = 11 \<longrightarrow> d \<le> 30"
    and feb: "m = 2 \<longrightarrow> d \<le> 29 \<and> (d = 29 \<longrightarrow> doy = 365)"
    unfolding m_eq d_eq using M by blast+
  have leap: "is_leap y" if "m = 2" "d = 29"
  proof -
    from that feb have "doy = 365" by simp
    with L have yy: "yy = 3" and qc: "q < 24 \<or> c = 3" by simp_all
    have y4: "y = 4 * (25 * c + q + 1 + 100 * era)"
      using y_eq yy that(1) m_eq by simp
    have m4: "y mod 4 = 0" unfolding y4 by simp
    show ?thesis
    proof (cases "q < 24")
      case True
      have "y = 100 * (c + 4 * era) + (4 * q + 4)" using y4 by simp
      moreover have "0 \<le> 4 * q + 4" "4 * q + 4 < 100" using B True by simp_all
      ultimately have "y mod 100 = 4 * q + 4"
        by (intro int_mod_pos_eq [where q = "c + 4 * era"]) simp_all
      with B have "y mod 100 \<noteq> 0" by simp
      with m4 show ?thesis by (simp add: is_leap_def)
    next
      case False
      with qc B have "c = 3" "q = 24" by simp_all
      with y4 have "y = 400 * (era + 1)" by simp
      then have "y mod 400 = 0" by simp
      with m4 show ?thesis by (simp add: is_leap_def)
    qed
  qed
  show ?thesis
  proof (cases "m = 2")
    case True
    with feb have d29: "d \<le> 29" by simp
    show ?thesis
    proof (cases "is_leap y")
      case True
      with \<open>m = 2\<close> d29 rng show ?thesis
        by (simp add: valid_civil_def days_in_month_def)
    next
      case False
      with leap \<open>m = 2\<close> have "d \<noteq> 29" by blast
      with d29 have "d \<le> 28" by simp
      with False \<open>m = 2\<close> rng show ?thesis
        by (simp add: valid_civil_def days_in_month_def)
    qed
  next
    case False
    with rng thirty show ?thesis
      by (simp add: valid_civil_def days_in_month_def)
  qed
qed

lemma civil_from_days_year:
  assumes "civil_from_days z = (y, m, d)" and "- 719162 \<le> z" and "z \<le> 2932896"
  shows "1 \<le> y \<and> y \<le> 9999"
proof -
  obtain era c q yy doy mp m' :: int where
    B: "0 \<le> c" "c \<le> 3" "0 \<le> q" "q \<le> 24" "0 \<le> yy" "yy \<le> 3"
    and D: "0 \<le> doy" "doy \<le> 365"
    and sum: "z + 719468 = era * 146097 + c * 36524 + q * 1461 + yy * 365 + doy"
    and mp_def: "mp = (5 * doy + 2) div 153"
    and m'_def: "m' = (if mp < 10 then mp + 3 else mp - 9)"
    and res: "civil_from_days z =
       (100 * c + 4 * q + yy + era * 400 + (if m' \<le> 2 then 1 else 0), m',
        doy - (153 * mp + 2) div 5 + 1)"
    by (rule civil_from_days_shape [of z]) blast
  note M = month_parts [OF D, folded mp_def, folded m'_def]
  have trip: "(y, m, d) =
       (100 * c + 4 * q + yy + era * 400 + (if m' \<le> 2 then 1 else 0), m',
        doy - (153 * mp + 2) div 5 + 1)"
    using assms(1) res by (rule trans [OF sym])
  have y_eq: "y = 100 * c + 4 * q + yy + era * 400 + (if m' \<le> 2 then 1 else 0)"
    using trip by blast
  have jf: "m' \<le> 2 \<longleftrightarrow> 306 \<le> doy" using M by simp
  have era_lo: "0 \<le> era" using sum assms(2) B D by linarith
  have era_hi: "era \<le> 24" using sum assms(3) B D by linarith
  have lo: "1 \<le> y"
  proof (cases "306 \<le> doy")
    case True
    with jf y_eq B era_lo show ?thesis by simp
  next
    case False
    with sum assms(2) B D era_lo have "1 \<le> era \<or> 1 \<le> c \<or> 1 \<le> q \<or> 1 \<le> yy" by linarith
    with y_eq B era_lo show ?thesis by auto
  qed
  have hi: "y \<le> 9999"
  proof (cases "306 \<le> doy")
    case True
    with sum assms(3) B D era_hi have "era \<le> 23 \<or> c \<le> 2 \<or> q \<le> 23 \<or> yy \<le> 2" by linarith
    with y_eq B era_hi show ?thesis by auto
  next
    case False
    with jf y_eq B era_hi show ?thesis by simp
  qed
  from lo hi show ?thesis ..
qed

subsection \<open>Formatting and parsing a date\<close>

lemma digit_char_props:
  assumes "0 \<le> k" and "k \<le> 9"
  shows "is_digit (digit_char k) \<and> digit_value (digit_char k) = k"
proof -
  from assms have "k = 0 \<or> k = 1 \<or> k = 2 \<or> k = 3 \<or> k = 4 \<or> k = 5 \<or> k = 6 \<or> k = 7
      \<or> k = 8 \<or> k = 9"
    by arith
  then show ?thesis
    by (elim disjE) (simp_all add: digit_char_def is_digit_def digit_value_def)
qed

lemma pad2_props:
  assumes "0 \<le> n" and "n \<le> 99"
  shows "list_all is_digit (pad2 n) \<and> digits_value (pad2 n) = n \<and> length (pad2 n) = 2"
proof -
  define a where "a = n div 10"
  define r where "r = n mod 10"
  have n: "n = 10 * a + r" and r: "0 \<le> r" "r \<le> 9" by (simp_all add: a_def r_def)
  have a: "0 \<le> a" "a \<le> 9" using n r assms by linarith+
  have p: "pad2 n = [digit_char a, digit_char r]"
    by (simp add: pad2_def a_def r_def)
  from digit_char_props [OF a] digit_char_props [OF r] n
  show ?thesis unfolding p by (simp add: digits_value_def)
qed

lemma pad4_props:
  assumes "0 \<le> n" and "n \<le> 9999"
  shows "list_all is_digit (pad4 n) \<and> digits_value (pad4 n) = n \<and> length (pad4 n) = 4"
proof -
  define a where "a = n div 10"
  define r0 where "r0 = n mod 10"
  define b where "b = a div 10"
  define r1 where "r1 = a mod 10"
  define c where "c = b div 10"
  define r2 where "r2 = b mod 10"
  have n: "n = 10 * a + r0" and r0: "0 \<le> r0" "r0 \<le> 9" by (simp_all add: a_def r0_def)
  have a: "a = 10 * b + r1" and r1: "0 \<le> r1" "r1 \<le> 9" by (simp_all add: b_def r1_def)
  have b: "b = 10 * c + r2" and r2: "0 \<le> r2" "r2 \<le> 9" by (simp_all add: c_def r2_def)
  have c: "0 \<le> c" "c \<le> 9" using n a b r0 r1 r2 assms by linarith+
  have e100: "n div 100 = b" unfolding b_def a_def by (simp add: zdiv_zmult2_eq [symmetric])
  have e1000: "n div 1000 = c" unfolding c_def b_def a_def
    by (simp add: zdiv_zmult2_eq [symmetric])
  have p: "pad4 n = [digit_char c, digit_char r2, digit_char r1, digit_char r0]"
    by (simp add: pad4_def e100 e1000 r2_def r1_def r0_def a_def)
  from digit_char_props [OF c] digit_char_props [OF r2] digit_char_props [OF r1]
    digit_char_props [OF r0] n a b
  show ?thesis unfolding p by (simp add: digits_value_def)
qed

lemma is_ymd_append:
  assumes "length ys = 4" "list_all is_digit ys" "length ms = 2" "list_all is_digit ms"
    "length ds = 2" "list_all is_digit ds"
  shows "is_ymd (ys @ ''-'' @ ms @ ''-'' @ ds)"
    and "take 4 (ys @ ''-'' @ ms @ ''-'' @ ds) = ys"
    and "take 2 (drop 5 (ys @ ''-'' @ ms @ ''-'' @ ds)) = ms"
    and "drop 8 (ys @ ''-'' @ ms @ ''-'' @ ds) = ds"
  using assms by (simp_all add: is_ymd_def nth_append)

lemma parseISO_format_time:
  assumes "- 719162 \<le> t div day_ms" and "t div day_ms \<le> 2932896"
  shows "parseISO (format_time t) = Time (t div day_ms * day_ms)"
proof -
  obtain y m d where c: "civil_from_days (t div day_ms) = (y, m, d)"
    by (cases "civil_from_days (t div day_ms)")
  from civil_from_days_year [OF c assms] have y: "1 \<le> y" "y \<le> 9999" by simp_all
  from civil_from_days_valid [OF c] have v: "valid_civil y m d" .
  then have m: "0 \<le> m" "m \<le> 99" and d: "0 \<le> d" "d \<le> 99"
    by (auto simp: valid_civil_def days_in_month_def split: if_splits)
  have ys: "year_string y = pad4 y" using y by (simp add: year_string_def)
  have f: "format_time t = pad4 y @ ''-'' @ pad2 m @ ''-'' @ pad2 d"
    by (simp add: format_time_def c ys)
  have y0: "0 \<le> y" using y by simp
  note Y = pad4_props [OF y0 y(2)] and M = pad2_props [OF m] and D = pad2_props [OF d]
  have shape: "is_ymd (pad4 y @ ''-'' @ pad2 m @ ''-'' @ pad2 d)"
    and parts: "take 4 (pad4 y @ ''-'' @ pad2 m @ ''-'' @ pad2 d) = pad4 y"
      "take 2 (drop 5 (pad4 y @ ''-'' @ pad2 m @ ''-'' @ pad2 d)) = pad2 m"
      "drop 8 (pad4 y @ ''-'' @ pad2 m @ ''-'' @ pad2 d) = pad2 d"
    using is_ymd_append [of "pad4 y" "pad2 m" "pad2 d"] Y M D by simp_all
  have "parseISO (format_time t) = Time (days_from_civil y m d * day_ms)"
    unfolding f parseISO_def Let_def using shape parts Y M D v by simp
  also have "days_from_civil y m d = t div day_ms"
    by (rule civil_from_days_inverse [OF c])
  finally show ?thesis .
qed

section \<open>Progress updates: the actual start and end dates\<close>

text \<open>
  C1. On a task that is found, an update with a progress above 0 writes the actual start
  date as follows: when the task has none (absent or empty) it becomes the task's planned
  start date; when it has one, the update date replaces it exactly when it is earlier, so
  the stored date afterwards is the earlier of the two. Below 100 the status becomes
  in-progress.
\<close>

theorem progress_update_actual_start:
  assumes "List.find (\<lambda>t. task_id t = taskId) tasks = Some t" and "0 < p"
  shows "\<exists>u. handleProgressUpdate tasks taskId (Num p) d reason = Some u \<and>
           (p < 100 \<longrightarrow> upd_status u = In_progress) \<and>
           upd_actualStartDate u =
             (case actualStartDate t of
                None \<Rightarrow> Some (planStartDate t)
              | Some a \<Rightarrow> if a = [] then Some (planStartDate t)
                          else if d < a then Some d else None) \<and>
           actualStartDate (updateTask t u) =
             (case actualStartDate t of
                None \<Rightarrow> Some (planStartDate t)
              | Some a \<Rightarrow> if a = [] then Some (planStartDate t) else Some (min a d))"
  using assms
  by (auto simp: handleProgressUpdate_def updateTask_def num_gt_def Let_def min_def truthy_def
           split: option.splits)

text \<open>
  The scenario of the specification (planned start 2024-01-01, no actual start, 50 percent on
  2024-01-10), and an update dated before the recorded actual start.
\<close>

theorem progress_update_actual_start_witness:
  "handleProgressUpdate [sample_task] ''t1'' (Num 50) ''2024-01-10'' [] =
     Some \<lparr> upd_progress = Num 50, upd_progressUpdatedAt = ''2024-01-10'',
            upd_status = In_progress, upd_remarks = None,
            upd_actualStartDate = Some ''2024-01-01'', upd_actualEndDate = None \<rparr>
   \<and> handleProgressUpdate [completed_task] ''t1'' (Num 60) ''2024-01-03'' [] =
     Some \<lparr> upd_progress = Num 60, upd_progressUpdatedAt = ''2024-01-03'',
            upd_status = In_progress, upd_remarks = None,
            upd_actualStartDate = Some ''2024-01-03'', upd_actualEndDate = Some [] \<rparr>"
proof -
  have f1: "List.find (\<lambda>t. task_id t = ''t1'') [sample_task] = Some sample_task"
    by (simp add: sample_task_def)
  have f2: "List.find (\<lambda>t. task_id t = ''t1'') [completed_task] = Some completed_task"
    by (simp add: sample_task_def completed_task_def)
  have p1: "(0::real) < 50" and p2: "(0::real) < 60" by simp_all
  from progress_update_actual_start [OF f1 p1, of "''2024-01-10''" "[]"]
    progress_update_actual_start [OF f2 p2, of "''2024-01-03''" "[]"]
  show ?thesis
    by (auto simp: handleProgressUpdate_def sample_task_def completed_task_def num_gt_def
          truthy_def)
qed

lemma updateTask_id [simp]: "task_id (updateTask t u) = task_id t"
  by (simp add: updateTask_def)

lemma positive_update_on_started_task:
  assumes "actualStartDate t = Some a" and "a \<noteq> []" and "0 < r"
  shows "\<exists>u. handleProgressUpdate [t] (task_id t) (Num r) d [] = Some u
           \<and> actualStartDate (updateTask t u) = Some (min a d)"
  using assms
  by (auto simp: handleProgressUpdate_def updateTask_def num_gt_def Let_def min_def)

text \<open>
  Over a run of updates with positive progress, on a task that has started, the actual
  start date ends as the least of its first value and all the update dates.
\<close>

lemma progressUpdates_start_is_minimum:
  assumes "actualStartDate t = Some a" and "a \<noteq> []"
    and "\<forall>u \<in> set us. (\<exists>r. fst u = Num r \<and> 0 < r) \<and> snd u \<noteq> []"
  shows "actualStartDate (progressUpdates t us) = Some (Min (insert a (snd ` set us)))"
  using assms
proof (induction us arbitrary: t a)
  case Nil
  then show ?case by simp
next
  case (Cons x us)
  obtain p d where x: "x = (p, d)" by (cases x)
  from Cons.prems(3) x obtain r where r: "p = Num r" "0 < r" and d: "d \<noteq> []" by auto
  from positive_update_on_started_task [OF Cons.prems(1,2) r(2), of d]
  obtain u where u: "handleProgressUpdate [t] (task_id t) (Num r) d [] = Some u"
    and s: "actualStartDate (updateTask t u) = Some (min a d)"
    by blast
  have ne: "min a d \<noteq> []" using Cons.prems(2) d by (simp add: min_def)
  have rest: "\<forall>u \<in> set us. (\<exists>r. fst u = Num r \<and> 0 < r) \<and> snd u \<noteq> []"
    using Cons.prems(3) by simp
  have "actualStartDate (progressUpdates (updateTask t u) us) =
      Some (Min (insert (min a d) (snd ` set us)))"
    by (rule Cons.IH [OF s ne rest])
  moreover have "Min (insert (min a d) (snd ` set us)) = Min (insert a (snd ` set (x # us)))"
  proof (cases "set us = {}")
    case True
    then show ?thesis using x by (simp add: min.commute)
  next
    case False
    then show ?thesis using x
      by (simp add: Min_insert [where A = "insert d (snd ` set us)"] min.assoc)
  qed
  ultimately show ?case using x r u by simp
qed

text \<open>
  C2, as stated, fails where a completed task is set back to 0: the actual start date is
  not left as it was but cleared, although the update date (2024-01-25) does not precede it
  (2024-01-05).
\<close>

theorem regress_to_zero_clears_actual_start:
  "handleProgressUpdate [completed_task] ''t1'' (Num 0) ''2024-01-25'' [] =
     Some \<lparr> upd_progress = Num 0, upd_progressUpdatedAt = ''2024-01-25'',
            upd_status = Not_started, upd_remarks = None,
            upd_actualStartDate = Some [], upd_actualEndDate = Some [] \<rparr>
   \<and> actualStartDate completed_task = Some ''2024-01-05''
   \<and> \<not> ''2024-01-25'' < ''2024-01-05''
   \<and> actualStartDate (updateTask completed_task
        \<lparr> upd_progress = Num 0, upd_progressUpdatedAt = ''2024-01-25'',
          upd_status = Not_started, upd_remarks = None,
          upd_actualStartDate = Some [], upd_actualEndDate = Some [] \<rparr>) = Some []"
  by (simp add: handleProgressUpdate_def completed_task_def sample_task_def num_gt_def
        truthy_def updateTask_def)

text \<open>
  C2, amended. For an update with a non-empty date on a task that is found, the update
  written, and with it the task as merged by the store, has progress 100 exactly when its
  status is completed, and that exactly when its actual end date is set, which then is the
  update date. An update to a progress strictly between 0 and 100 gives the status
  in-progress and an actual start date that is the planned start date when there was none,
  and otherwise the earlier of the recorded one and the update date (the key is written
  only when the date changes); an update to exactly 0 gives the status not-started and
  clears the actual start date.
\<close>

theorem progress_update_completion:
  assumes "List.find (\<lambda>t. task_id t = taskId) tasks = Some t" and "d \<noteq> []"
  shows "\<exists>u. handleProgressUpdate tasks taskId x d reason = Some u \<and>
           (upd_progress u = Num 100 \<longleftrightarrow> upd_status u = Completed) \<and>
           (upd_status u = Completed \<longleftrightarrow> truthy (upd_actualEndDate u)) \<and>
           (truthy (upd_actualEndDate u) \<longrightarrow> upd_actualEndDate u = Some d) \<and>
           (progress (updateTask t u) = Num 100 \<longleftrightarrow> status (updateTask t u) = Completed) \<and>
           (status (updateTask t u) = Completed \<longleftrightarrow> truthy (actualEndDate (updateTask t u))) \<and>
           (truthy (actualEndDate (updateTask t u)) \<longrightarrow> actualEndDate (updateTask t u) = Some d) \<and>
           (\<forall>p. x = Num p \<and> 0 < p \<and> p < 100 \<longrightarrow>
              upd_status u = In_progress \<and>
              upd_actualStartDate u =
                (case actualStartDate t of
                   None \<Rightarrow> Some (planStartDate t)
                 | Some a \<Rightarrow> if a = [] then Some (planStartDate t)
                             else if d < a then Some d else None) \<and>
              actualStartDate (updateTask t u) =
                (case actualStartDate t of
                   None \<Rightarrow> Some (planStartDate t)
                 | Some a \<Rightarrow> if a = [] then Some (planStartDate t) else Some (min a d))) \<and>
           (x = Num 0 \<longrightarrow>
              upd_status u = Not_started \<and>
              upd_actualStartDate u = Some [] \<and>
              actualStartDate (updateTask t u) = Some [])"
  using assms
  by (auto simp: handleProgressUpdate_def updateTask_def num_gt_def Let_def min_def truthy_def
           split: option.splits number.splits)

text \<open>
  Completion on 2024-01-20; a completed task set back to 60 and to 0 on 2024-01-25.
\<close>

theorem progress_update_completion_witness:
  "status (updateTask sample_task
      (the (handleProgressUpdate [sample_task] ''t1'' (Num 100) ''2024-01-20'' []))) = Completed
   \<and> actualEndDate (updateTask sample_task
      (the (handleProgressUpdate [sample_task] ''t1'' (Num 100) ''2024-01-20'' []))) =
       Some ''2024-01-20''
   \<and> status (updateTask completed_task
      (the (handleProgressUpdate [completed_task] ''t1'' (Num 60) ''2024-01-25'' []))) = In_progress
   \<and> actualEndDate (updateTask completed_task
      (the (handleProgressUpdate [completed_task] ''t1'' (Num 60) ''2024-01-25'' []))) = Some []
   \<and> actualStartDate (updateTask completed_task
      (the (handleProgressUpdate [completed_task] ''t1'' (Num 60) ''2024-01-25'' []))) =
       Some ''2024-01-05''
   \<and> status (updateTask completed_task
      (the (handleProgressUpdate [completed_task] ''t1'' (Num 0) ''2024-01-25'' []))) = Not_started
   \<and> actualStartDate (updateTask completed_task
      (the (handleProgressUpdate [completed_task] ''t1'' (Num 0) ''2024-01-25'' []))) = Some []"
proof -
  have f1: "List.find (\<lambda>t. task_id t = ''t1'') [sample_task] = Some sample_task"
    by (simp add: sample_task_def)
  have f2: "List.find (\<lambda>t. task_id t = ''t1'') [completed_task] = Some completed_task"
    by (simp add: sample_task_def completed_task_def)
  have d1: "''2024-01-20'' \<noteq> []" and d2: "''2024-01-25'' \<noteq> []" by simp_all
  from progress_update_completion [OF f1 d1, of "Num 100" "[]"]
    progress_update_completion [OF f2 d2, of "Num 60" "[]"]
    progress_update_completion [OF f2 d2, of "Num 0" "[]"]
  show ?thesis
    by (auto simp: handleProgressUpdate_def sample_task_def completed_task_def num_gt_def
          truthy_def updateTask_def min_def)
qed

section \<open>S-curve coordinates\<close>

text \<open>
  C3. For every date and timeline start, \<open>getX\<close> is the contract of the coordinate mapper
  on the number \<open>n\<close> of whole days between them: \<open>n\<close> times the cell width at the day
  level, \<open>n / 7\<close> times it at the week level and \<open>n / 30.44\<close> times it at the month level.
  When both dates are at midnight, as the sample points of the S-curve and the dates of the
  tasks are, \<open>n\<close> days is the exact difference. The timeline start is the first item of the
  timeline, or the start of the time range when the timeline has no item. (Arithmetic is on
  reals.)
\<close>

theorem getX_follows_contract:
  "\<exists>n. differenceInDays (Time d) (Time s) = Some n
     \<and> getX (Time s) ''day'' cellWidth (Time d) = Num (dateToX_contract ViewDay n cellWidth)
     \<and> getX (Time s) ''week'' cellWidth (Time d) = Num (dateToX_contract ViewWeek n cellWidth)
     \<and> getX (Time s) ''month'' cellWidth (Time d) = Num (dateToX_contract ViewMonth n cellWidth)
     \<and> dateToX_contract ViewDay n cellWidth = of_int n * cellWidth
     \<and> dateToX_contract ViewWeek n cellWidth = of_int n / 7 * cellWidth
     \<and> dateToX_contract ViewMonth n cellWidth = of_int n / 30.44 * cellWidth
     \<and> (s mod day_ms = 0 \<and> d mod day_ms = 0 \<longrightarrow> n * day_ms = d - s)
     \<and> timelineStart (first # others) rangeStart = first
     \<and> timelineStart [] rangeStart = rangeStart"
  using whole_days_exact [of s d]
  by (simp add: differenceInDays_def getX_def dateToX_contract_def timelineStart_def)

text \<open>Two weeks after the timeline start, at 40 pixels a cell.\<close>

theorem getX_follows_contract_witness:
  "differenceInDays (ymd 2024 1 15) (ymd 2024 1 1) = Some 14
   \<and> getX (ymd 2024 1 1) ''day'' 40 (ymd 2024 1 15) = Num 560
   \<and> getX (ymd 2024 1 1) ''week'' 40 (ymd 2024 1 15) = Num 80
   \<and> getX (ymd 2024 1 1) ''month'' 40 (ymd 2024 1 15) = Num (14 / 30.44 * 40)"
proof -
  have s: "ymd 2024 1 1 = Time (19723 * day_ms)" and d: "ymd 2024 1 15 = Time (19737 * day_ms)"
    by (simp_all add: ymd_def days_from_civil_def)
  have m: "(19723 * day_ms) mod day_ms = 0 \<and> (19737 * day_ms) mod day_ms = 0" by simp
  from getX_follows_contract [of "19737 * day_ms" "19723 * day_ms" 40 "ymd 2024 1 1" "[]"
      "ymd 2024 1 1"] m
  obtain n where n: "differenceInDays (Time (19737 * day_ms)) (Time (19723 * day_ms)) = Some n"
    and x: "getX (Time (19723 * day_ms)) ''day'' 40 (Time (19737 * day_ms)) = Num (of_int n * 40)"
       "getX (Time (19723 * day_ms)) ''week'' 40 (Time (19737 * day_ms)) = Num (of_int n / 7 * 40)"
       "getX (Time (19723 * day_ms)) ''month'' 40 (Time (19737 * day_ms)) = Num (of_int n / 30.44 * 40)"
    and e: "n * day_ms = 19737 * day_ms - 19723 * day_ms"
    by auto
  from e have "n * day_ms = 14 * day_ms" by simp
  then have "n = 14" using day_ms_pos by simp
  with n x show ?thesis unfolding s d by simp
qed

section \<open>The group row of the header\<close>

lemma sum_list_indicator:
  "(\<Sum>g\<leftarrow>gs. if P g then 1 else 0) = length (filter P gs)"
  by (induction gs) simp_all

lemma count_by_group_or_by_item:
  "(\<Sum>g\<leftarrow>gs. length (filter (\<lambda>i. P i g) xs)) = (\<Sum>i\<leftarrow>xs. length (filter (P i) gs))"
proof (induction xs)
  case Nil
  then show ?case by simp
next
  case (Cons a xs)
  have "(\<Sum>g\<leftarrow>gs. length (filter (\<lambda>i. P i g) (a # xs))) =
        (\<Sum>g\<leftarrow>gs. (if P a g then 1 else 0) + length (filter (\<lambda>i. P i g) xs))"
    by (rule arg_cong [where f = sum_list]) simp
  also have "\<dots> = (\<Sum>g\<leftarrow>gs. if P a g then 1 else 0) + (\<Sum>g\<leftarrow>gs. length (filter (\<lambda>i. P i g) xs))"
    by (simp add: sum_list_addf)
  also have "\<dots> = length (filter (P a) gs) + (\<Sum>i\<leftarrow>xs. length (filter (P i) gs))"
    by (simp add: sum_list_indicator Cons.IH)
  finally show ?case by simp
qed

lemma sum_list_scaled:
  "(\<Sum>g\<leftarrow>gs. of_nat (f g) * (c::real)) = of_nat (\<Sum>g\<leftarrow>gs. f g) * c"
  by (induction gs) (simp_all add: algebra_simps)

text \<open>
  The test of the filters in the code, on \<open>getMonth\<close> and \<open>getFullYear\<close>, is the test
  of belonging to the group.
\<close>

lemma belongsToGroup_code:
  "belongsToGroup zoom item g =
     (if zoom = ViewMonth then sameYear item g else sameMonthAndYear item g)"
  by (auto simp: sameMonthAndYear_def sameYear_def belongsToGroup_def strict_eq_def
      getMonth_def getFullYear_def split: date.splits prod.splits)

lemma groupWidth_count:
  assumes "viewMode \<noteq> ViewOther"
  shows "groupWidth viewMode tline cw g =
         of_nat (length (filter (\<lambda>item. belongsToGroup viewMode item g) (items tline))) * cw"
  using assms by (cases viewMode) (simp_all add: groupWidth_def belongsToGroup_code)

text \<open>
  C4. At the day, week and month levels the top row of the header gives every group of the
  timeline, in order, the width that is the number of timeline items belonging to it (the
  items in its month of its year at the day and week levels, in its year at the month
  level) times the cell width; and when every item belongs to exactly one group of the
  list, these widths add up to the number of items times the cell width, whatever part of
  a month or year the timeline covers.
\<close>

theorem header_group_widths:
  "(viewMode \<noteq> ViewOther \<longrightarrow>
      groupWidths viewMode tline cw =
        map (\<lambda>g. of_nat (length (filter (\<lambda>item. belongsToGroup viewMode item g)
                                    (items tline))) * cw)
            (groups tline))
   \<and> (viewMode \<noteq> ViewOther
        \<and> (\<forall>item \<in> set (items tline).
              length (filter (belongsToGroup viewMode item) (groups tline)) = 1) \<longrightarrow>
      sum_list (groupWidths viewMode tline cw) = of_nat (length (items tline)) * cw)"
proof (intro conjI impI)
  assume "viewMode \<noteq> ViewOther"
  then show "groupWidths viewMode tline cw =
        map (\<lambda>g. of_nat (length (filter (\<lambda>item. belongsToGroup viewMode item g)
                                    (items tline))) * cw)
            (groups tline)"
    unfolding groupWidths_def by (simp add: groupWidth_count)
next
  assume a: "viewMode \<noteq> ViewOther
        \<and> (\<forall>item \<in> set (items tline).
              length (filter (belongsToGroup viewMode item) (groups tline)) = 1)"
  have "sum_list (groupWidths viewMode tline cw) =
        (\<Sum>g\<leftarrow>groups tline.
           of_nat (length (filter (\<lambda>item. belongsToGroup viewMode item g) (items tline))) * cw)"
    unfolding groupWidths_def using a by (simp add: groupWidth_count cong: map_cong)
  also have "\<dots> = of_nat (\<Sum>g\<leftarrow>groups tline.
           length (filter (\<lambda>item. belongsToGroup viewMode item g) (items tline))) * cw"
    by (rule sum_list_scaled)
  also have "(\<Sum>g\<leftarrow>groups tline.
           length (filter (\<lambda>item. belongsToGroup viewMode item g) (items tline))) =
        (\<Sum>item\<leftarrow>items tline. length (filter (belongsToGroup viewMode item) (groups tline)))"
    by (rule count_by_group_or_by_item)
  also have "\<dots> = (\<Sum>item\<leftarrow>items tline. 1)"
    using a by (simp cong: map_cong)
  also have "\<dots> = length (items tline)"
    by (simp add: sum_list_triv)
  finally show "sum_list (groupWidths viewMode tline cw) = of_nat (length (items tline)) * cw" .
qed

text \<open>
  Four days across the turn of January 2024, at 40 pixels a day: two groups of width 80.
\<close>

theorem header_group_widths_witness:
  "groupWidths ViewDay sample_timeline 40 = [80, 80]
   \<and> sum_list (groupWidths ViewDay sample_timeline 40) = 160
   \<and> length (items sample_timeline) = 4"
proof -
  have n: "map (\<lambda>g. length (filter (\<lambda>item. belongsToGroup ViewDay item g)
              (items sample_timeline))) (groups sample_timeline) = [2, 2]"
    by code_simp
  have one: "\<forall>item \<in> set (items sample_timeline).
       length (filter (belongsToGroup ViewDay item) (groups sample_timeline)) = 1"
    by code_simp
  have len: "length (items sample_timeline) = 4"
    by (simp add: sample_timeline_def)
  have g: "groups sample_timeline = [ymd 2024 1 1, ymd 2024 2 1]"
    by (simp add: sample_timeline_def)
  from header_group_widths [of ViewDay sample_timeline 40]
  show ?thesis using n one len g by simp
qed

section \<open>CSV import\<close>

lemma importRow_nameless: "rowName row = [] \<Longrightarrow> importRow e maxOrder st row = Inr st"
  by (simp add: importRow_def)

text \<open>
  One pass of the loop body on a named row: the created task has the next generated id; a
  group row makes it the open scope; a non-group row of the category of the open scope gets
  the scope's id as parent; any other non-group row gets no parent and leaves no scope
  open.
\<close>

lemma importRow_scope:
  assumes "importRow e maxOrder st row = Inr st'" and "rowName row \<noteq> []"
  shows "\<exists>t. tasksToCreate st' = tasksToCreate st @ [t]
     \<and> count st' = Suc (count st)
     \<and> task_id t = getNewTaskId e (count st)
     \<and> (rowType row = Group \<longrightarrow>
          activeGroup st' = Some (task_id t, rowCategory row) \<and> parentTaskId t = None)
     \<and> (rowType row \<noteq> Group \<longrightarrow>
          (\<forall>gid. activeGroup st = Some (gid, rowCategory row) \<longrightarrow>
             parentTaskId t = Some gid \<and> activeGroup st' = activeGroup st)
          \<and> ((\<forall>gid. activeGroup st \<noteq> Some (gid, rowCategory row)) \<longrightarrow>
             parentTaskId t = None \<and> activeGroup st' = None))"
  using assms
  by (auto simp: importRow_def Let_def split: option.splits if_splits)

text \<open>The loop over a file in two parts, and what a run of the loop creates.\<close>

lemma importRows_append:
  "importRows e maxOrder st (xs @ ys) =
     (case importRows e maxOrder st xs of
        Inl err \<Rightarrow> Inl err
      | Inr st1 \<Rightarrow> importRows e maxOrder st1 ys)"
  by (induction xs arbitrary: st) (simp_all split: sum.splits)

lemma importRows_created:
  assumes "importRows e maxOrder st rows = Inr st'"
  shows "\<exists>new. tasksToCreate st' = tasksToCreate st @ new
     \<and> length new = length (filter (\<lambda>r. rowName r \<noteq> []) rows)
     \<and> count st' = count st + length new"
  using assms
proof (induction rows arbitrary: st)
  case Nil
  then show ?case by simp
next
  case (Cons row rows)
  from Cons.prems obtain st1 where r: "importRow e maxOrder st row = Inr st1"
    and rs: "importRows e maxOrder st1 rows = Inr st'"
    by (auto split: sum.splits)
  from Cons.IH [OF rs] obtain new where
    n: "tasksToCreate st' = tasksToCreate st1 @ new"
      "length new = length (filter (\<lambda>r. rowName r \<noteq> []) rows)"
      "count st' = count st1 + length new"
    by blast
  show ?case
  proof (cases "rowName row = []")
    case True
    with r have "st1 = st" by (simp add: importRow_nameless)
    with n True show ?thesis by simp
  next
    case False
    from importRow_scope [OF r False] obtain t where
      t: "tasksToCreate st1 = tasksToCreate st @ [t]" "count st1 = Suc (count st)"
      by blast
    have "tasksToCreate st' = tasksToCreate st @ (t # new)" using t n by simp
    moreover have "length (t # new) = length (filter (\<lambda>r. rowName r \<noteq> []) (row # rows))"
      using n False by simp
    moreover have "count st' = count st + length (t # new)" using t n by simp
    ultimately show ?thesis by blast
  qed
qed

text \<open>
  While a scope is open, a run of rows that (where named) are non-group rows of its
  category attaches every created task to it; while none is open, a run of non-group rows
  attaches none.
\<close>

lemma importRows_open_scope:
  assumes "importRows e maxOrder st rows = Inr st'"
    and "activeGroup st = Some (gid, cat)"
    and "\<forall>row \<in> set rows. rowName row \<noteq> [] \<longrightarrow> rowType row \<noteq> Group \<and> rowCategory row = cat"
  shows "activeGroup st' = Some (gid, cat)
     \<and> (\<forall>new. tasksToCreate st' = tasksToCreate st @ new \<longrightarrow>
            (\<forall>t \<in> set new. parentTaskId t = Some gid))"
  using assms
proof (induction rows arbitrary: st)
  case Nil
  then show ?case by simp
next
  case (Cons row rows)
  from Cons.prems(1) obtain st1 where r: "importRow e maxOrder st row = Inr st1"
    and rs: "importRows e maxOrder st1 rows = Inr st'"
    by (auto split: sum.splits)
  have rest: "\<forall>row \<in> set rows. rowName row \<noteq> [] \<longrightarrow> rowType row \<noteq> Group \<and> rowCategory row = cat"
    using Cons.prems(3) by simp
  show ?case
  proof (cases "rowName row = []")
    case True
    with r have "st1 = st" by (simp add: importRow_nameless)
    with Cons.IH [OF rs _ rest] Cons.prems(2) show ?thesis by simp
  next
    case False
    with Cons.prems(3) have ty: "rowType row \<noteq> Group" and c: "rowCategory row = cat" by simp_all
    from importRow_scope [OF r False] ty c Cons.prems(2)
    obtain t where t: "tasksToCreate st1 = tasksToCreate st @ [t]" "parentTaskId t = Some gid"
      and g: "activeGroup st1 = Some (gid, cat)"
      by auto
    from Cons.IH [OF rs g rest] have
      a: "activeGroup st' = Some (gid, cat)"
      and n: "\<And>new. tasksToCreate st' = tasksToCreate st1 @ new \<Longrightarrow>
                \<forall>t \<in> set new. parentTaskId t = Some gid"
      by blast+
    have "\<forall>x \<in> set new. parentTaskId x = Some gid"
      if eq: "tasksToCreate st' = tasksToCreate st @ new" for new
    proof -
      from importRows_created [OF rs] obtain new1 where
        n1: "tasksToCreate st' = tasksToCreate st1 @ new1" by blast
      with t eq have "new = t # new1" by simp
      with n [OF n1] t show ?thesis by simp
    qed
    with a show ?thesis by blast
  qed
qed

lemma importRows_no_scope:
  assumes "importRows e maxOrder st rows = Inr st'"
    and "activeGroup st = None"
    and "\<forall>row \<in> set rows. rowName row \<noteq> [] \<longrightarrow> rowType row \<noteq> Group"
  shows "activeGroup st' = None
     \<and> (\<forall>new. tasksToCreate st' = tasksToCreate st @ new \<longrightarrow>
            (\<forall>t \<in> set new. parentTaskId t = None))"
  using assms
proof (induction rows arbitrary: st)
  case Nil
  then show ?case by simp
next
  case (Cons row rows)
  from Cons.prems(1) obtain st1 where r: "importRow e maxOrder st row = Inr st1"
    and rs: "importRows e maxOrder st1 rows = Inr st'"
    by (auto split: sum.splits)
  have rest: "\<forall>row \<in> set rows. rowName row \<noteq> [] \<longrightarrow> rowType row \<noteq> Group"
    using Cons.prems(3) by simp
  show ?case
  proof (cases "rowName row = []")
    case True
    with r have "st1 = st" by (simp add: importRow_nameless)
    with Cons.IH [OF rs _ rest] Cons.prems(2) show ?thesis by simp
  next
    case False
    with Cons.prems(3) have ty: "rowType row \<noteq> Group" by simp
    from importRow_scope [OF r False] ty Cons.prems(2)
    obtain t where t: "tasksToCreate st1 = tasksToCreate st @ [t]" "parentTaskId t = None"
      and g: "activeGroup st1 = None"
      by auto
    from Cons.IH [OF rs g rest] have
      a: "activeGroup st' = None"
      and n: "\<And>new. tasksToCreate st' = tasksToCreate st1 @ new \<Longrightarrow>
                \<forall>t \<in> set new. parentTaskId t = None"
      by blast+
    have "\<forall>x \<in> set new. parentTaskId x = None"
      if eq: "tasksToCreate st' = tasksToCreate st @ new" for new
    proof -
      from importRows_created [OF rs] obtain new1 where
        n1: "tasksToCreate st' = tasksToCreate st1 @ new1" by blast
      with t eq have "new = t # new1" by simp
      with n [OF n1] t show ?thesis by simp
    qed
    with a show ?thesis by blast
  qed
qed

text \<open>The batches written are the created tasks, in order.\<close>

lemma concat_chunksOf: "0 < n \<Longrightarrow> concat (chunksOf n xs) = xs"
proof (induction n xs rule: chunksOf.induct)
  case (1 n xs)
  show ?case
  proof (cases "xs = []")
    case True
    then show ?thesis by (subst chunksOf.simps) simp
  next
    case False
    with 1 have "concat (chunksOf n (drop n xs)) = drop n xs"
      by (simp del: chunksOf.simps)
    moreover have "chunksOf n xs = take n xs # chunksOf n (drop n xs)"
      using False 1(2) by (subst chunksOf.simps) (simp del: chunksOf.simps)
    ultimately show ?thesis by (simp del: chunksOf.simps)
  qed
qed

lemma handleImportFile_completed:
  assumes "handleImportFile e tasks data = Import_completed n chunks"
  shows "\<exists>st. importRows e (currentMaxOrder tasks) (initialImportState tasks) data = Inr st
     \<and> concat chunks = tasksToCreate st \<and> n = count st"
proof (cases "importRows e (currentMaxOrder tasks) (initialImportState tasks) data")
  case (Inl err)
  with assms show ?thesis
    by (simp add: handleImportFile_def del: chunksOf.simps split: if_splits)
next
  case (Inr st)
  with assms have "chunks = chunksOf 450 (tasksToCreate st)" and "n = count st"
    by (simp_all add: handleImportFile_def del: chunksOf.simps
        split: if_splits option.splits)
  with Inr show ?thesis by (simp add: concat_chunksOf del: chunksOf.simps)
qed

text \<open>
  C5. In an import that completes, take a named group row of the file, the rows \<open>rows\<close>
  after it, which where named are non-group rows of the group's category, and the named row
  \<open>next\<close> after those. Of the tasks written, in the order of the rows: the group's task has
  the id generated for it and no parent; every task of \<open>rows\<close> has the group's id as
  parent; the task of \<open>next\<close> has the group's id as parent when \<open>next\<close> is a non-group row
  of the group's category; it has no parent when \<open>next\<close> is a non-group row of another
  category, and then neither have the tasks of the following rows as long as these are
  non-group rows, whatever their category; and when \<open>next\<close> is a group row its task has no
  parent and the id generated for it, and the following rows attach to that id as long as
  they are non-group rows of the category of \<open>next\<close>. Rows without a name are skipped.
\<close>

theorem import_group_scope:
  assumes "handleImportFile e tasks (pre @ grow # rows @ next # rest) = Import_completed n chunks"
    and "rowName grow \<noteq> []" and "rowType grow = Group"
    and "\<forall>row \<in> set rows. rowName row \<noteq> [] \<longrightarrow>
           rowType row \<noteq> Group \<and> rowCategory row = rowCategory grow"
    and "rowName next \<noteq> []"
  shows "\<exists>st' before g new t after.
       importRows e (currentMaxOrder tasks) (initialImportState tasks)
         (pre @ grow # rows @ next # rest) = Inr st'
     \<and> concat chunks = tasksToCreate st'
     \<and> concat chunks = before @ g # new @ t # after
     \<and> length before = length (filter (\<lambda>r. rowName r \<noteq> []) pre)
     \<and> length new = length (filter (\<lambda>r. rowName r \<noteq> []) rows)
     \<and> length after = length (filter (\<lambda>r. rowName r \<noteq> []) rest)
     \<and> task_id g = getNewTaskId e (length before)
     \<and> parentTaskId g = None
     \<and> (\<forall>x \<in> set new. parentTaskId x = Some (task_id g))
     \<and> (rowType next \<noteq> Group \<and> rowCategory next = rowCategory grow \<longrightarrow>
          parentTaskId t = Some (task_id g))
     \<and> (rowType next \<noteq> Group \<and> rowCategory next \<noteq> rowCategory grow \<longrightarrow>
          parentTaskId t = None
          \<and> ((\<forall>row \<in> set rest. rowName row \<noteq> [] \<longrightarrow> rowType row \<noteq> Group) \<longrightarrow>
               (\<forall>x \<in> set after. parentTaskId x = None) \<and> activeGroup st' = None))
     \<and> (rowType next = Group \<longrightarrow>
          parentTaskId t = None
          \<and> task_id t = getNewTaskId e (length before + 1 + length new)
          \<and> ((\<forall>row \<in> set rest. rowName row \<noteq> [] \<longrightarrow>
                 rowType row \<noteq> Group \<and> rowCategory row = rowCategory next) \<longrightarrow>
               (\<forall>x \<in> set after. parentTaskId x = Some (task_id t))
               \<and> activeGroup st' = Some (task_id t, rowCategory next)))"
proof -
  let ?mo = "currentMaxOrder tasks"
  let ?named = "\<lambda>r. rowName r \<noteq> []"
  from handleImportFile_completed [OF assms(1)] obtain st' where
    run: "importRows e ?mo (initialImportState tasks) (pre @ grow # rows @ next # rest) = Inr st'"
    and out: "concat chunks = tasksToCreate st'"
    by blast
  from run obtain st1 where
    r1: "importRows e ?mo (initialImportState tasks) pre = Inr st1"
    and run1: "importRows e ?mo st1 (grow # rows @ next # rest) = Inr st'"
    by (auto simp: importRows_append split: sum.splits)
  from run1 obtain st2 where
    r2: "importRow e ?mo st1 grow = Inr st2"
    and run2: "importRows e ?mo st2 (rows @ next # rest) = Inr st'"
    by (auto split: sum.splits)
  from run2 obtain st3 where
    r3: "importRows e ?mo st2 rows = Inr st3"
    and run3: "importRows e ?mo st3 (next # rest) = Inr st'"
    by (auto simp: importRows_append split: sum.splits)
  from run3 obtain st4 where
    r4: "importRow e ?mo st3 next = Inr st4"
    and r5: "importRows e ?mo st4 rest = Inr st'"
    by (auto split: sum.splits)
  from importRows_created [OF r1] obtain before where
    b: "tasksToCreate st1 = before" "length before = length (filter ?named pre)"
      "count st1 = length before"
    by (auto simp: initialImportState_def)
  from importRow_scope [OF r2 assms(2)] assms(3) obtain g where
    g: "tasksToCreate st2 = tasksToCreate st1 @ [g]" "count st2 = Suc (count st1)"
      "task_id g = getNewTaskId e (count st1)" "parentTaskId g = None"
      "activeGroup st2 = Some (task_id g, rowCategory grow)"
    by auto
  from importRows_created [OF r3] obtain new where
    n: "tasksToCreate st3 = tasksToCreate st2 @ new" "length new = length (filter ?named rows)"
      "count st3 = count st2 + length new"
    by blast
  from importRows_open_scope [OF r3 g(5) assms(4)] n(1) have
    np: "\<forall>x \<in> set new. parentTaskId x = Some (task_id g)"
    and a3: "activeGroup st3 = Some (task_id g, rowCategory grow)"
    by blast+
  from importRow_scope [OF r4 assms(5)] obtain t where
    t: "tasksToCreate st4 = tasksToCreate st3 @ [t]" "task_id t = getNewTaskId e (count st3)"
    and tg: "rowType next = Group \<longrightarrow>
          activeGroup st4 = Some (task_id t, rowCategory next) \<and> parentTaskId t = None"
    and tn: "rowType next \<noteq> Group \<longrightarrow>
          (\<forall>gid. activeGroup st3 = Some (gid, rowCategory next) \<longrightarrow>
             parentTaskId t = Some gid \<and> activeGroup st4 = activeGroup st3)
          \<and> ((\<forall>gid. activeGroup st3 \<noteq> Some (gid, rowCategory next)) \<longrightarrow>
             parentTaskId t = None \<and> activeGroup st4 = None)"
    by blast
  from importRows_created [OF r5] obtain after where
    a: "tasksToCreate st' = tasksToCreate st4 @ after"
      "length after = length (filter ?named rest)"
    by blast
  have shape: "concat chunks = before @ g # new @ t # after"
    using out a t n g b by simp
  have same: "parentTaskId t = Some (task_id g)"
    if "rowType next \<noteq> Group" "rowCategory next = rowCategory grow"
    using tn that a3 by simp
  have other: "parentTaskId t = None \<and> activeGroup st4 = None"
    if "rowType next \<noteq> Group" "rowCategory next \<noteq> rowCategory grow"
    using tn that a3 by simp
  have closed: "(\<forall>x \<in> set after. parentTaskId x = None) \<and> activeGroup st' = None"
    if "rowType next \<noteq> Group" "rowCategory next \<noteq> rowCategory grow"
      and "\<forall>row \<in> set rest. rowName row \<noteq> [] \<longrightarrow> rowType row \<noteq> Group"
  proof -
    from other [OF that(1,2)] have "activeGroup st4 = None" by simp
    from importRows_no_scope [OF r5 this that(3)] a(1) show ?thesis by simp
  qed
  have grp: "parentTaskId t = None
       \<and> task_id t = getNewTaskId e (length before + 1 + length new)"
    if "rowType next = Group"
    using tg that t(2) n(3) g(2) b(3) by simp
  have replaced: "(\<forall>x \<in> set after. parentTaskId x = Some (task_id t))
       \<and> activeGroup st' = Some (task_id t, rowCategory next)"
    if "rowType next = Group"
      and "\<forall>row \<in> set rest. rowName row \<noteq> [] \<longrightarrow>
             rowType row \<noteq> Group \<and> rowCategory row = rowCategory next"
  proof -
    from tg that(1) have "activeGroup st4 = Some (task_id t, rowCategory next)" by simp
    from importRows_open_scope [OF r5 this that(2)] a(1) show ?thesis by simp
  qed
  have gid: "task_id g = getNewTaskId e (length before)"
    using g(3) b(3) by simp
  show ?thesis
    apply (rule exI [of _ st'], rule exI [of _ before], rule exI [of _ g],
        rule exI [of _ new], rule exI [of _ t], rule exI [of _ after])
    using run out shape b(2) n(2) a(2) gid g(4) np same other closed grp replaced
    by (intro conjI impI) blast+
qed

text \<open>
  Two imports into a project without tasks, on ids \<open>id0\<close>, \<open>id1\<close>, ...: a group row, two
  rows of its category and a row of another category; and a group row, a row of its
  category, the group row again and a row of its category.
\<close>

theorem import_group_scope_witness:
  "(case handleImportFile sample_env [] [group_row, task_row_a, task_row_b, other_row] of
      Import_failed err \<Rightarrow> []
    | Import_completed n chunks \<Rightarrow> map parentTaskId (concat chunks)) =
     [None, Some ''id0'', Some ''id0'', None]
   \<and> (case handleImportFile sample_env [] [group_row, task_row_a, group_row, task_row_b] of
      Import_failed err \<Rightarrow> []
    | Import_completed n chunks \<Rightarrow> map parentTaskId (concat chunks)) =
     [None, Some ''id0'', None, Some ''id2'']"
proof -
  let ?named = "\<lambda>r. rowName r \<noteq> []"
  have rows: "rowName group_row \<noteq> []" "rowType group_row = Group"
    "rowName other_row \<noteq> []" "rowType other_row \<noteq> Group"
    "rowCategory other_row \<noteq> rowCategory group_row"
    "\<forall>row \<in> set [task_row_a, task_row_b]. rowName row \<noteq> [] \<longrightarrow>
       rowType row \<noteq> Group \<and> rowCategory row = rowCategory group_row"
    "\<forall>row \<in> set [task_row_a]. rowName row \<noteq> [] \<longrightarrow>
       rowType row \<noteq> Group \<and> rowCategory row = rowCategory group_row"
    "\<forall>row \<in> set [task_row_b]. rowName row \<noteq> [] \<longrightarrow>
       rowType row \<noteq> Group \<and> rowCategory row = rowCategory group_row"
    by code_simp+
  have len: "length (filter ?named [task_row_a, task_row_b]) = 2"
    "length (filter ?named [task_row_a]) = 1" "length (filter ?named [task_row_b]) = 1"
    by code_simp+
  have ids: "getNewTaskId sample_env 0 = ''id0''" "getNewTaskId sample_env 2 = ''id2''"
    by code_simp+
  have two: "\<exists>a b. xs = [a, b]" if "length xs = 2" for xs :: "task list"
    using that by (auto simp: length_Suc_conv numeral_2_eq_2)
  have one: "\<exists>a. xs = [a]" if "length xs = 1" for xs :: "task list"
    using that by (auto simp: length_Suc_conv)
  have o1: "handleImportFile sample_env [] ([] @ group_row # [task_row_a, task_row_b]
             @ other_row # []) =
      Import_completed 4 [tasksToCreate (projr (importRows sample_env 0 (initialImportState [])
        [group_row, task_row_a, task_row_b, other_row]))]"
    by code_simp
  have o2: "handleImportFile sample_env [] ([] @ group_row # [task_row_a]
             @ group_row # [task_row_b]) =
      Import_completed 4 [tasksToCreate (projr (importRows sample_env 0 (initialImportState [])
        [group_row, task_row_a, group_row, task_row_b]))]"
    by code_simp
  let ?c1 = "[tasksToCreate (projr (importRows sample_env 0 (initialImportState [])
        [group_row, task_row_a, task_row_b, other_row]))]"
  let ?c2 = "[tasksToCreate (projr (importRows sample_env 0 (initialImportState [])
        [group_row, task_row_a, group_row, task_row_b]))]"
  from import_group_scope [OF o1 rows(1,2,6,3)]
  have first: "map parentTaskId (concat ?c1) = [None, Some ''id0'', Some ''id0'', None]"
  proof (elim exE conjE)
    fix st' :: import_state and before new after :: "task list" and g t :: task
    assume shape: "concat ?c1 = before @ g # new @ t # after"
      and l: "length before = length (filter ?named [])"
        "length new = length (filter ?named [task_row_a, task_row_b])"
        "length after = length (filter ?named [])"
      and g: "task_id g = getNewTaskId sample_env (length before)" "parentTaskId g = None"
      and n: "\<forall>x \<in> set new. parentTaskId x = Some (task_id g)"
      and t: "rowType other_row \<noteq> Group \<and> rowCategory other_row \<noteq> rowCategory group_row \<longrightarrow>
          parentTaskId t = None
          \<and> ((\<forall>row \<in> set []. rowName row \<noteq> [] \<longrightarrow> rowType row \<noteq> Group) \<longrightarrow>
               (\<forall>x \<in> set after. parentTaskId x = None) \<and> activeGroup st' = None)"
    from l have e: "before = []" "after = []" by simp_all
    from l(2) len(1) two obtain a b where ab: "new = [a, b]" by metis
    from g e ids have "task_id g = ''id0''" by simp
    with shape e ab g n t rows(4,5)
    show "map parentTaskId (concat ?c1) = [None, Some ''id0'', Some ''id0'', None]"
      by simp
  qed
  from import_group_scope [OF o2 rows(1,2,7,1)]
  have second: "map parentTaskId (concat ?c2) = [None, Some ''id0'', None, Some ''id2'']"
  proof (elim exE conjE)
    fix st' :: import_state and before new after :: "task list" and g t :: task
    assume shape: "concat ?c2 = before @ g # new @ t # after"
      and l: "length before = length (filter ?named [])"
        "length new = length (filter ?named [task_row_a])"
        "length after = length (filter ?named [task_row_b])"
      and g: "task_id g = getNewTaskId sample_env (length before)" "parentTaskId g = None"
      and n: "\<forall>x \<in> set new. parentTaskId x = Some (task_id g)"
      and t: "rowType group_row = Group \<longrightarrow>
          parentTaskId t = None
          \<and> task_id t = getNewTaskId sample_env (length before + 1 + length new)
          \<and> ((\<forall>row \<in> set [task_row_b]. rowName row \<noteq> [] \<longrightarrow>
                 rowType row \<noteq> Group \<and> rowCategory row = rowCategory group_row) \<longrightarrow>
               (\<forall>x \<in> set after. parentTaskId x = Some (task_id t))
               \<and> activeGroup st' = Some (task_id t, rowCategory group_row))"
    from l have e: "before = []" by simp
    from l(2) len(2) one obtain a where a: "new = [a]" by metis
    from l(3) len(3) one obtain b where b: "after = [b]" by metis
    from g e ids have "task_id g = ''id0''" by simp
    moreover from t rows(2,8) e a ids have "parentTaskId t = None" "task_id t = ''id2''"
      "\<forall>x \<in> set after. parentTaskId x = Some (task_id t)"
      by (simp_all add: numeral_2_eq_2)
    ultimately show "map parentTaskId (concat ?c2) = [None, Some ''id0'', None, Some ''id2'']"
      using shape e a b g n by simp
  qed
  from o1 o2 first second show ?thesis by simp
qed

text \<open>
  The scenario of the specification in full, and a row of the group's category that comes
  after the scope was closed.
\<close>

lemma import_scenario:
  "handleImportFile sample_env [] [group_row, task_row_a, task_row_b, other_row] =
     Import_completed 4
       [tasksToCreate (projr (importRows sample_env 0 (initialImportState [])
          [group_row, task_row_a, task_row_b, other_row]))]
   \<and> map parentTaskId (tasksToCreate (projr (importRows sample_env 0 (initialImportState [])
        [group_row, task_row_a, task_row_b, other_row]))) =
       [None, Some ''id0'', Some ''id0'', None]
   \<and> map task_id (tasksToCreate (projr (importRows sample_env 0 (initialImportState [])
        [group_row, task_row_a, task_row_b, other_row]))) =
       [''id0'', ''id1'', ''id2'', ''id3'']
   \<and> map parentTaskId (tasksToCreate (projr (importRows sample_env 0 (initialImportState [])
        [group_row, task_row_a, other_row, task_row_b]))) =
       [None, Some ''id0'', None, None]"
  by code_simp

lemma digit_not_space: "is_digit c \<Longrightarrow> \<not> is_space c"
  by (auto simp: is_digit_def is_space_def)

lemma trim_Nil [simp]: "trim [] = []"
  by (simp add: trim_def)

lemma is_ymd_nonempty: "is_ymd s \<Longrightarrow> s \<noteq> [] \<and> s \<noteq> ''-''"
  by (auto simp: is_ymd_def)

lemma trim_dash: "trim ''-'' = ''-''"
  by (simp add: trim_def is_space_def)

lemma digit_not_sign: "is_digit c \<Longrightarrow> c \<noteq> CHR ''-'' \<and> c \<noteq> CHR ''+''"
  by (auto simp: is_digit_def)

lemma parseInt_two_digits:
  assumes "is_digit a" and "is_digit b"
  shows "parseInt [a, b] = Some (digits_value [a, b])"
  using assms digit_not_space [of a] digit_not_sign [of a]
  by (simp add: parseInt_def Let_def)

text \<open>
  The forms of a date cell. A cell of the form \<open>YYYY-MM-DD\<close> (after trimming) is taken as
  it is; one of the form \<open>DD/MM/YYYY\<close> is rearranged to \<open>YYYY-MM-DD\<close>; one of the form
  \<open>DD/MM/YY\<close> gets the century 20 when the two digits are below 50 and 19 otherwise; a cell
  of none of these forms is given to the date parser of the runtime, whose result is the
  result; an empty cell, a lone dash or a blank cell gives nothing.
\<close>

lemma parseDateString_forms:
  "(is_ymd (trim v) \<longrightarrow> parseDateString dp v = Some (trim v))
   \<and> (list_all is_digit [d1, d2, m1, m2, y1, y2, y3, y4] \<longrightarrow>
        parseDateString dp [d1, d2, CHR ''/'', m1, m2, CHR ''/'', y1, y2, y3, y4] =
          Some [y1, y2, y3, y4, CHR ''-'', m1, m2, CHR ''-'', d1, d2])
   \<and> (list_all is_digit [d1, d2, m1, m2, y1, y2] \<longrightarrow>
        parseDateString dp [d1, d2, CHR ''/'', m1, m2, CHR ''/'', y1, y2] =
          Some ((if digits_value [y1, y2] < 50 then ''20'' else ''19'')
                @ [y1, y2, CHR ''-'', m1, m2, CHR ''-'', d1, d2]))
   \<and> (v \<noteq> [] \<and> v \<noteq> ''-'' \<and> trim v \<noteq> []
        \<and> \<not> is_ymd (trim v) \<and> \<not> is_dmy4 (trim v) \<and> \<not> is_dmy2 (trim v) \<longrightarrow>
        parseDateString dp v = dp (trim v))
   \<and> (v = [] \<or> v = ''-'' \<or> trim v = [] \<longrightarrow> parseDateString dp v = None)"
proof (intro conjI impI)
  assume "is_ymd (trim v)"
  moreover from this have "trim v \<noteq> []" "v \<noteq> []" "v \<noteq> ''-''"
    using is_ymd_nonempty [of "trim v"] trim_dash by auto
  ultimately show "parseDateString dp v = Some (trim v)"
    by (simp add: parseDateString_def Let_def)
next
  assume a: "list_all is_digit [d1, d2, m1, m2, y1, y2, y3, y4]"
  let ?s = "[d1, d2, CHR ''/'', m1, m2, CHR ''/'', y1, y2, y3, y4]"
  from a have "\<not> is_space d1" "\<not> is_space y4" by (simp_all add: digit_not_space)
  then have t: "trim ?s = ?s" by (simp add: trim_def)
  have "\<not> is_digit (CHR ''/'')" by (simp add: is_digit_def)
  then have n: "\<not> is_ymd ?s" by (simp add: is_ymd_def)
  have y: "is_dmy4 ?s" using a by (simp add: is_dmy4_def)
  show "parseDateString dp ?s = Some [y1, y2, y3, y4, CHR ''-'', m1, m2, CHR ''-'', d1, d2]"
    by (simp add: parseDateString_def Let_def t n y)
next
  assume a: "list_all is_digit [d1, d2, m1, m2, y1, y2]"
  let ?s = "[d1, d2, CHR ''/'', m1, m2, CHR ''/'', y1, y2]"
  from a have "\<not> is_space d1" "\<not> is_space y2" by (simp_all add: digit_not_space)
  then have t: "trim ?s = ?s" by (simp add: trim_def)
  have n: "\<not> is_ymd ?s" "\<not> is_dmy4 ?s" by (simp_all add: is_ymd_def is_dmy4_def)
  have y: "is_dmy2 ?s" using a by (simp add: is_dmy2_def)
  have p: "parseInt [y1, y2] = Some (digits_value [y1, y2])"
    using a by (simp add: parseInt_two_digits)
  show "parseDateString dp ?s =
          Some ((if digits_value [y1, y2] < 50 then ''20'' else ''19'')
                @ [y1, y2, CHR ''-'', m1, m2, CHR ''-'', d1, d2])"
    by (simp add: parseDateString_def Let_def t n y p)
next
  assume "v \<noteq> [] \<and> v \<noteq> ''-'' \<and> trim v \<noteq> []
        \<and> \<not> is_ymd (trim v) \<and> \<not> is_dmy4 (trim v) \<and> \<not> is_dmy2 (trim v)"
  then show "parseDateString dp v = dp (trim v)"
    by (simp add: parseDateString_def Let_def)
next
  assume "v = [] \<or> v = ''-'' \<or> trim v = []"
  then show "parseDateString dp v = None"
    by (auto simp: parseDateString_def)
qed

text \<open>
  The planned start of the task created for a row is the date read from its cell, and
  today's date when the cell gives nothing.
\<close>

lemma importRow_plan_start:
  assumes "importRow e maxOrder st row = Inr st'" and "rowName row \<noteq> []"
  shows "\<exists>t. tasksToCreate st' = tasksToCreate st @ [t]
     \<and> planStartDate t = rowPlanStart e row
     \<and> (\<forall>s. parseDateString (dateParse e) (js_or (cell row ''Plan Start'') (cell row ''Start''))
               = Some s \<and> s \<noteq> [] \<longrightarrow> planStartDate t = s)
     \<and> (parseDateString (dateParse e) (js_or (cell row ''Plan Start'') (cell row ''Start''))
          = None \<longrightarrow> planStartDate t = format_time (now e))"
proof -
  from assms obtain t where t: "tasksToCreate st' = tasksToCreate st @ [t]"
    "planStartDate t = rowPlanStart e row"
    by (auto simp: importRow_def Let_def split: option.splits if_splits)
  then show ?thesis by (auto simp: rowPlanStart_def)
qed

text \<open>
  When the cell gives nothing the row is created, with today's date as its planned start
  (the clock reading a day of the years 1 to 9999, and the planned end within the range of
  \<open>Date\<close>).
\<close>

lemma import_row_without_date:
  assumes "rowName row \<noteq> []"
    and "parseDateString (dateParse e) (js_or (cell row ''Plan Start'') (cell row ''Start'')) = None"
    and "- 719162 \<le> now e div day_ms" and "now e div day_ms \<le> 2932896"
    and "\<bar>now e div day_ms + (rowDuration row - 1)\<bar> \<le> 99999999"
  shows "\<exists>st' t. importRow e maxOrder st row = Inr st'
           \<and> tasksToCreate st' = tasksToCreate st @ [t]
           \<and> planStartDate t = format_time (now e)
           \<and> count st' = Suc (count st)"
proof -
  from assms(2) have ps: "rowPlanStart e row = format_time (now e)"
    by (simp add: rowPlanStart_def)
  from assms(3,4) have "parseISO (format_time (now e)) = Time (now e div day_ms * day_ms)"
    by (simp add: parseISO_format_time)
  then have f: "format_ymd (addDays (parseISO (format_time (now e))) (rowDuration row - 1)) =
      Some (format_time (now e div day_ms * day_ms + (rowDuration row - 1) * day_ms))"
    by (simp add: addDays_def format_ymd_def)
  from assms(1) show ?thesis
    by (simp add: importRow_def Let_def f ps)
qed

text \<open>
  A planned start of the form \<open>yyyy-MM-dd\<close> that names no day makes the loop body throw,
  and the import fails at that row. A cell of the form \<open>YYYY-MM-DD\<close> whose month or day does
  not exist is such a start, since the cell is taken as it is.
\<close>

lemma importRow_invalid_start:
  assumes "rowName row \<noteq> []" and "is_ymd (rowPlanStart e row)"
    and "parseISO (rowPlanStart e row) = Invalid_Date"
  shows "importRow e maxOrder st row = Inl Invalid_time_value"
  using assms by (simp add: importRow_def Let_def addDays_def format_ymd_def)

lemma importRow_impossible_ymd:
  assumes "rowName row \<noteq> []"
    and "is_ymd (trim (js_or (cell row ''Plan Start'') (cell row ''Start'')))"
    and "parseISO (trim (js_or (cell row ''Plan Start'') (cell row ''Start''))) = Invalid_Date"
  shows "importRow e maxOrder st row = Inl Invalid_time_value"
proof -
  let ?v = "js_or (cell row ''Plan Start'') (cell row ''Start'')"
  from assms(2) have "parseDateString (dateParse e) ?v = Some (trim ?v)"
    using parseDateString_forms [of ?v] by blast
  moreover from assms(2) have "trim ?v \<noteq> []" by (simp add: is_ymd_nonempty)
  ultimately have "rowPlanStart e row = trim ?v" by (simp add: rowPlanStart_def)
  with assms show ?thesis by (simp add: importRow_invalid_start)
qed

lemma handleImportFile_abort:
  assumes "importRows e (currentMaxOrder tasks) (initialImportState tasks) pre = Inr st"
    and "importRow e (currentMaxOrder tasks) st row = Inl err"
  shows "handleImportFile e tasks (pre @ row # post) = Import_failed err"
  using assms by (simp add: handleImportFile_def importRows_append del: chunksOf.simps)

text \<open>
  C6 fails for a date cell of an accepted form that names no day of the calendar. The cell
  \<open>2024-02-30\<close> is taken as it is and the cell \<open>31/02/2024\<close> is rearranged to
  \<open>2024-02-31\<close>; \<open>parseISO\<close> reads neither as a day, the end date of the row cannot be
  formatted, and the import fails with \<open>Invalid time value\<close>, the rows before and after it
  included: nothing is written. Rows whose cell is a dash, or a word that no form matches
  and the date parser cannot read, are created with the import date 2024-01-10, next to a
  row created with the date of its cell.
\<close>

theorem import_impossible_date_aborts:
  "parseDateString (dateParse sample_env) ''2024-02-30'' = Some ''2024-02-30''
   \<and> parseISO ''2024-02-30'' = Invalid_Date
   \<and> handleImportFile sample_env [] [task_row_b, impossible_date_row, task_row_a] =
       Import_failed Invalid_time_value
   \<and> parseDateString (dateParse sample_env) ''31/02/2024'' = Some ''2024-02-31''
   \<and> handleImportFile sample_env [] [task_row_b, impossible_slash_row] =
       Import_failed Invalid_time_value
   \<and> (case handleImportFile sample_env [] [task_row_b, undated_row, unreadable_row] of
        Import_failed err \<Rightarrow> []
      | Import_completed n chunks \<Rightarrow> map planStartDate (concat chunks)) =
       [''2024-01-15'', ''2024-01-10'', ''2024-01-10'']"
  by code_simp

text \<open>One cell of each kind, and a row whose date cell is a dash, imported on 2024-01-10.\<close>

lemma import_date_cells_examples:
  "parseDateString (dateParse sample_env) '' 2024-01-10 '' = Some ''2024-01-10''
   \<and> parseDateString (dateParse sample_env) ''15/01/2024'' = Some ''2024-01-15''
   \<and> parseDateString (dateParse sample_env) ''01/03/24'' = Some ''2024-03-01''
   \<and> parseDateString (dateParse sample_env) ''01/03/75'' = Some ''1975-03-01''
   \<and> parseDateString (dateParse sample_env) ''March 5, 2024'' = Some ''2024-03-05''
   \<and> parseDateString (dateParse sample_env) ''-'' = None
   \<and> parseDateString (dateParse sample_env) ''soon'' = None
   \<and> map planStartDate (tasksToCreate (projr (importRow sample_env 0 (initialImportState [])
        undated_row))) = [''2024-01-10'']"
  by code_simp

section \<open>The planned interval of a created task\<close>

lemma parseISO_midnight:
  assumes "parseISO s = Time n"
  shows "n mod day_ms = 0"
  using assms by (auto simp: parseISO_def Let_def split: if_splits)

text \<open>
  C7 on the path of \<open>handleAddTask\<close>: the duration is at least 1; when the planned start
  is read as a day and the day reached by adding the duration less one lies in the years 1
  to 9999, the planned end is that day, and reads back as it; when the planned start has
  the form \<open>yyyy-MM-dd\<close> but names no day, or is empty, the planned end is the planned
  start as given.
\<close>

lemma handleAddTask_plan_interval:
  assumes "handleAddTask e selectedProjectId tasks newTaskData autoLink = Some t"
  shows "1 \<le> planDuration t
     \<and> (\<forall>n. parseISO (planStartDate t) = Time n
            \<and> - 719162 \<le> n div day_ms + (planDuration t - 1)
            \<and> n div day_ms + (planDuration t - 1) \<le> 2932896 \<longrightarrow>
          planEndDate t = format_time (n + (planDuration t - 1) * day_ms)
          \<and> parseISO (planEndDate t) = Time (n + (planDuration t - 1) * day_ms))
     \<and> (is_ymd (planStartDate t) \<and> parseISO (planStartDate t) = Invalid_Date \<longrightarrow>
          planEndDate t = planStartDate t)
     \<and> (planStartDate t = [] \<longrightarrow> planEndDate t = [])"
proof -
  define dur where
    "dur = max 1 (case parseInt (case newTaskData ''duration'' of None \<Rightarrow> ''1'' | Some v \<Rightarrow> v) of
                    None \<Rightarrow> 1 | Some n \<Rightarrow> if n = 0 then 1 else n)"
  define start where
    "start = (case newTaskData ''planStartDate'' of None \<Rightarrow> format_time (now e) | Some v \<Rightarrow> v)"
  from assms have t: "planDuration t = dur" "planStartDate t = start"
    and e: "planEndDate t =
      (case format_ymd (addDays (parseISO start) (dur - 1)) of Some s \<Rightarrow> s | None \<Rightarrow> start)"
    unfolding dur_def start_def
    by (auto simp: handleAddTask_def Let_def split: if_splits)
  have d1: "1 \<le> dur" by (simp add: dur_def)
  have a: "planEndDate t = format_time (n + (dur - 1) * day_ms)" if "parseISO start = Time n" for n
    using e that by (simp add: addDays_def format_ymd_def)
  have b: "parseISO (planEndDate t) = Time (n + (dur - 1) * day_ms)"
    if p: "parseISO start = Time n"
      and r: "- 719162 \<le> n div day_ms + (dur - 1)" "n div day_ms + (dur - 1) \<le> 2932896" for n
  proof -
    have dv: "(n + (dur - 1) * day_ms) div day_ms = n div day_ms + (dur - 1)"
      by (rule div_day_shift)
    from parseISO_midnight [OF p] have "n = n div day_ms * day_ms"
      by (simp add: mod_eq_0_iff_dvd)
    then have n: "n + (dur - 1) * day_ms = (n div day_ms + (dur - 1)) * day_ms"
      by (simp add: algebra_simps)
    have "parseISO (format_time (n + (dur - 1) * day_ms)) =
        Time ((n + (dur - 1) * day_ms) div day_ms * day_ms)"
      by (rule parseISO_format_time) (use r dv in simp_all)
    then show ?thesis unfolding a [OF p] dv using n by simp
  qed
  have c: "planEndDate t = start" if "parseISO start = Invalid_Date"
    using e that by (simp add: addDays_def format_ymd_def)
  have "parseISO [] = Invalid_Date" by (simp add: parseISO_def is_ymd_def)
  with c have c': "planEndDate t = []" if "start = []" using that by simp
  from d1 a b c c' show ?thesis unfolding t by blast
qed

text \<open>
  On the import path the planned end is computed in the same way (here for a planned end
  within the range of \<open>Date\<close>), but from the duration of the row as parsed, which nothing
  keeps above zero.
\<close>

lemma importRow_plan_interval:
  assumes "importRow e maxOrder st row = Inr st'" and "rowName row \<noteq> []"
  shows "\<exists>t. tasksToCreate st' = tasksToCreate st @ [t]
     \<and> planDuration t = rowDuration row
     \<and> (\<forall>n. parseISO (planStartDate t) = Time n
            \<and> \<bar>n div day_ms + (planDuration t - 1)\<bar> \<le> 99999999 \<longrightarrow>
          planEndDate t = format_time (n + (planDuration t - 1) * day_ms))"
  using assms
  by (auto simp: importRow_def Let_def addDays_def format_ymd_def
      split: option.splits if_splits date.splits)

text \<open>
  C7 on the import path: a row with the duration \<open>-3\<close> is created with that duration and
  with a planned end date four days before its planned start date.
\<close>

theorem import_negative_duration:
  "handleImportFile sample_env [] [negative_duration_row] =
     Import_completed 1
       [[\<lparr> task_id = ''id0'', projectId = [], name = ''Backfill'', category = ''Imported'',
           subcategory = None, subsubcategory = None, type = Task,
           planStartDate = ''2024-01-10'', planEndDate = ''2024-01-06'', planDuration = - 3,
           cost = Num 0, quantity = None, responsible = None, progress = Num 0,
           status = Not_started, order = 1, parentTaskId = None, color = None,
           predecessors = None, actualStartDate = None, actualEndDate = None,
           progressUpdatedAt = None, remarks = None \<rparr>]]
   \<and> ''2024-01-06'' < ''2024-01-10''"
  by code_simp

text \<open>
  C8: an empty file is refused with an error, but a file whose only row has no task name is
  reported as completed with 0 records, nothing having been written.
\<close>

theorem import_without_named_rows:
  "handleImportFile sample_env [] [] = Import_failed Empty_file
   \<and> handleImportFile sample_env [] [nameless_row] = Import_completed 0 []"
  by code_simp

text \<open>The same holds for every file none of whose rows has a name.\<close>

lemma importRows_nameless:
  "\<forall>row \<in> set rows. rowName row = [] \<Longrightarrow> importRows e maxOrder st rows = Inr st"
  by (induction rows) (simp_all add: importRow_def)

lemma chunksOf_Nil: "chunksOf n [] = []"
  by simp

lemma import_of_nameless_rows:
  assumes "data \<noteq> []" and "\<forall>row \<in> set data. rowName row = []"
  shows "handleImportFile e tasks data = Import_completed 0 []"
  using assms
  by (simp add: handleImportFile_def importRows_nameless initialImportState_def)

section \<open>The four-week window\<close>

lemma startOfWeek_Time:
  "startOfWeek (Time t) ws =
     Time ((t div day_ms - ((if getDay t < ws then 7 else 0) + getDay t - ws)) * day_ms)"
  by (simp only: startOfWeek_def Let_def date.case)

lemma endOfWeek_Time:
  "endOfWeek (Time t) ws =
     Time ((t div day_ms + ((if getDay t < ws then - 7 else 0) + 6 - (getDay t - ws))) * day_ms
           + (day_ms - 1))"
  by (simp only: endOfWeek_def Let_def date.case)

lemma subWeeks_one: "subWeeks (Time t) 1 = Time (t - 7 * day_ms)"
  by (simp add: subWeeks_def addWeeks_def addDays_def)

lemma addWeeks_two: "addWeeks (Time t) 2 = Time (t + 14 * day_ms)"
  by (simp add: addWeeks_def addDays_def)

text \<open>
  C9. In the four-week mode the effect leaves the view mode at the day level whatever was
  selected, and only that level is offered. The range starts on a Monday, the one on or
  before the day a week before today, and ends on a Sunday, the one on or after the day two
  weeks after today; the two are 27 days apart. The effective start and end dates are these
  two days as formatted, whatever project is selected.
\<close>

theorem four_week_window:
  "viewModeEffect Window4w chartViewMode = ViewDay
   \<and> allowedViewModes Window4w = [ViewDay]
   \<and> (\<exists>s e. fourWeekStart today = Time (s * day_ms)
         \<and> fourWeekEnd today = Time (e * day_ms + (day_ms - 1))
         \<and> getDay (s * day_ms) = 1
         \<and> s \<le> today div day_ms - 7 \<and> today div day_ms - 7 < s + 7
         \<and> getDay (e * day_ms) = 0
         \<and> today div day_ms + 14 \<le> e \<and> e < today div day_ms + 14 + 7
         \<and> e - s = 27
         \<and> fourWeekRange today = Some (format_time (s * day_ms), format_time (e * day_ms))
         \<and> effectiveStartDate Window4w (format_time (s * day_ms), format_time (e * day_ms))
              selectedProject = Some (format_time (s * day_ms))
         \<and> effectiveEndDate Window4w (format_time (s * day_ms), format_time (e * day_ms))
              selectedProject = Some (format_time (e * day_ms)))"
proof -
  define T where "T = today div day_ms"
  define w where "w = (T + 4) mod 7"
  define s where "s = T - 7 - ((if w < 1 then 7 else 0) + w - 1)"
  define e where "e = T + 14 + ((if w < 1 then - 7 else 0) + 6 - (w - 1))"
  have w_rng: "0 \<le> w" "w < 7" by (simp_all add: w_def)
  have d1: "(today - 7 * day_ms) div day_ms = T - 7"
    using div_day_shift [of today "- 7"] by (simp add: T_def)
  have d2: "(today + 14 * day_ms) div day_ms = T + 14"
    using div_day_shift [of today 14] by (simp add: T_def)
  have "T - 7 + 4 = T + 4 + (- 1) * 7" and "T + 14 + 4 = T + 4 + 2 * 7" by simp_all
  then have m1: "(T - 7 + 4) mod 7 = w" and m2: "(T + 14 + 4) mod 7 = w"
    unfolding w_def by (simp_all only: mod_mult_self1)
  have g1: "getDay (today - 7 * day_ms) = w"
    unfolding getDay_def d1 by (rule m1)
  have g2: "getDay (today + 14 * day_ms) = w"
    unfolding getDay_def d2 by (rule m2)
  have st: "fourWeekStart today = Time (s * day_ms)"
    unfolding fourWeekStart_def subWeeks_one startOfWeek_Time g1 d1 s_def by (rule refl)
  have en: "fourWeekEnd today = Time (e * day_ms + (day_ms - 1))"
    unfolding fourWeekEnd_def addWeeks_two endOfWeek_Time g2 d2 e_def by (rule refl)
  define k where "k = (T + 4) div 7"
  have Tk: "T = 7 * k + w - 4" by (simp add: k_def w_def)
  have gs: "getDay (s * day_ms) = 1"
  proof -
    have "s + 4 = 7 * (if w < 1 then k - 2 else k - 1) + 1"
      unfolding s_def Tk by simp
    then have "(s + 4) mod 7 = 1" by (simp only: mod_mult_self4) simp
    then show ?thesis by (simp add: getDay_def div_day_mult)
  qed
  have ge: "getDay (e * day_ms) = 0"
  proof -
    have "e + 4 = 7 * (if w < 1 then k + 2 else k + 3)"
      unfolding e_def Tk by simp
    then have "(e + 4) mod 7 = 0" by simp
    then show ?thesis by (simp add: getDay_def div_day_mult)
  qed
  have b: "s \<le> T - 7" "T - 7 < s + 7" "T + 14 \<le> e" "e < T + 14 + 7" "e - s = 27"
    using w_rng unfolding s_def e_def by (simp_all split: if_splits)
  have fe: "format_time (e * day_ms + (day_ms - 1)) = format_time (e * day_ms)"
    by (simp add: format_time_def div_day_last_ms div_day_mult)
  have r: "fourWeekRange today = Some (format_time (s * day_ms), format_time (e * day_ms))"
    by (simp add: fourWeekRange_def st en format_ymd_def fe)
  have v: "viewModeEffect Window4w chartViewMode = ViewDay"
    and a: "allowedViewModes Window4w = [ViewDay]"
    by (simp_all add: viewModeEffect_def allowedViewModes_def)
  have eff: "effectiveStartDate Window4w (format_time (s * day_ms), format_time (e * day_ms))
               selectedProject = Some (format_time (s * day_ms))"
      "effectiveEndDate Window4w (format_time (s * day_ms), format_time (e * day_ms))
               selectedProject = Some (format_time (e * day_ms))"
    by (simp_all add: effectiveStartDate_def effectiveEndDate_def)
  have "fourWeekStart today = Time (s * day_ms)
         \<and> fourWeekEnd today = Time (e * day_ms + (day_ms - 1))
         \<and> getDay (s * day_ms) = 1
         \<and> s \<le> today div day_ms - 7 \<and> today div day_ms - 7 < s + 7
         \<and> getDay (e * day_ms) = 0
         \<and> today div day_ms + 14 \<le> e \<and> e < today div day_ms + 14 + 7
         \<and> e - s = 27
         \<and> fourWeekRange today = Some (format_time (s * day_ms), format_time (e * day_ms))
         \<and> effectiveStartDate Window4w (format_time (s * day_ms), format_time (e * day_ms))
              selectedProject = Some (format_time (s * day_ms))
         \<and> effectiveEndDate Window4w (format_time (s * day_ms), format_time (e * day_ms))
              selectedProject = Some (format_time (e * day_ms))"
    using st en gs ge b [unfolded T_def] r eff by (intro conjI)
  with v a show ?thesis by (intro conjI exI [of _ s] exI [of _ e]) simp_all
qed

text \<open>
  On Monday 2026-11-02 at ten in the morning the window runs from Monday 2026-10-26 to
  Sunday 2026-11-22, for a project planned over 2024.
\<close>

theorem four_week_window_witness:
  "viewModeEffect Window4w ViewMonth = ViewDay
   \<and> fourWeekRange 1793613600000 = Some (''2026-10-26'', ''2026-11-22'')
   \<and> effectiveStartDate Window4w (''2026-10-26'', ''2026-11-22'') (Some sample_project) =
       Some ''2026-10-26''
   \<and> effectiveEndDate Window4w (''2026-10-26'', ''2026-11-22'') (Some sample_project) =
       Some ''2026-11-22''
   \<and> effectiveStartDate WindowProject (''2026-10-26'', ''2026-11-22'') (Some sample_project) =
       Some ''2024-01-01''"
proof -
  have r: "fourWeekRange 1793613600000 = Some (''2026-10-26'', ''2026-11-22'')"
    by code_simp
  have p: "effectiveStartDate WindowProject (''2026-10-26'', ''2026-11-22'')
      (Some sample_project) = Some ''2024-01-01''"
    by code_simp
  from four_week_window [of ViewMonth 1793613600000 "Some sample_project"]
  obtain s e where
    "fourWeekRange 1793613600000 = Some (format_time (s * day_ms), format_time (e * day_ms))"
    "effectiveStartDate Window4w (format_time (s * day_ms), format_time (e * day_ms))
       (Some sample_project) = Some (format_time (s * day_ms))"
    "effectiveEndDate Window4w (format_time (s * day_ms), format_time (e * day_ms))
       (Some sample_project) = Some (format_time (e * day_ms))"
    and v: "viewModeEffect Window4w ViewMonth = ViewDay"
    by blast
  with r p show ?thesis by simp
qed

section \<open>The default start date of a new subtask\<close>

lemma maxEndDate_Max: "maxEndDate xs a = Max (insert a (planEndDate ` set xs))"
proof (induction xs arbitrary: a)
  case Nil
  then show ?case by (simp add: maxEndDate_def)
next
  case (Cons x xs)
  have "(if a < planEndDate x then planEndDate x else a) = max a (planEndDate x)"
    by (auto simp: max_def)
  then have "maxEndDate (x # xs) a = maxEndDate xs (max a (planEndDate x))"
    by (simp add: maxEndDate_def)
  also have "\<dots> = Max (insert (max a (planEndDate x)) (planEndDate ` set xs))"
    by (rule Cons.IH)
  also have "\<dots> = Max (insert a (planEndDate ` set (x # xs)))"
  proof (cases "set xs = {}")
    case True
    then show ?thesis by simp
  next
    case False
    then show ?thesis
      by (simp add: Max_insert [where A = "insert (planEndDate x) (planEndDate ` set xs)"]
            max.assoc)
  qed
  finally show ?case .
qed

lemma maxEndDate_siblings:
  assumes "xs = s # rest"
  shows "maxEndDate xs (planEndDate s) = Max (planEndDate ` set xs)"
  using assms by (simp add: maxEndDate_Max insert_absorb)

text \<open>
  C10, as stated, fails where the greatest planned end date of the children is not a date:
  a child whose dates were left empty (\<open>handleAddTask\<close> stores such a task when the form's
  start date is empty) makes the default start date that same empty string, not a day
  after anything.
\<close>

theorem subtask_after_undated_sibling:
  "handleAddSubTask (now sample_env) [sample_group, undated_child] ''g1'' =
     Some \<lparr> init_parentTaskId = ''g1'', init_category = ''Structure'',
            init_subcategory = ''Concrete'', init_subsubcategory = [], init_type = Task,
            init_planStartDate = [] \<rparr>
   \<and> map planEndDate (siblingTasks [sample_group, undated_child] ''g1'') = [[]]
   \<and> parseISO [] = Invalid_Date"
  by code_simp

text \<open>
  C10, amended. For a parent that is found, the new subtask takes the parent's id,
  category, subcategory and subsubcategory (the empty string for an absent one). With
  \<open>M\<close> the greatest planned end date (by the string order) over the parent's non-group
  children: when there are such children and \<open>M\<close> parses as a date, the default start is
  the day after it; when there are such children and \<open>M\<close> does not parse, it is \<open>M\<close>
  itself; when there are none it is the parent's planned start date if that is not empty,
  and today otherwise.
\<close>

theorem subtask_default_start:
  assumes "List.find (\<lambda>t. task_id t = parentId) tasks = Some parent"
  shows "\<exists>r. handleAddSubTask today tasks parentId = Some r
     \<and> init_parentTaskId r = parentId \<and> init_type r = Task
     \<and> init_category r = category parent
     \<and> init_subcategory r = (case subcategory parent of None \<Rightarrow> [] | Some s \<Rightarrow> s)
     \<and> init_subsubcategory r = (case subsubcategory parent of None \<Rightarrow> [] | Some s \<Rightarrow> s)
     \<and> (siblingTasks tasks parentId \<noteq> [] \<longrightarrow>
          (\<forall>n. parseISO (Max (planEndDate ` set (siblingTasks tasks parentId))) = Time n \<longrightarrow>
             init_planStartDate r = format_time (n + day_ms)
             \<and> (n + day_ms) div day_ms = n div day_ms + 1)
          \<and> (parseISO (Max (planEndDate ` set (siblingTasks tasks parentId))) = Invalid_Date \<longrightarrow>
             init_planStartDate r = Max (planEndDate ` set (siblingTasks tasks parentId))))
     \<and> (siblingTasks tasks parentId = [] \<and> planStartDate parent \<noteq> [] \<longrightarrow>
          init_planStartDate r = planStartDate parent)
     \<and> (siblingTasks tasks parentId = [] \<and> planStartDate parent = [] \<longrightarrow>
          init_planStartDate r = format_time today)"
proof (cases "siblingTasks tasks parentId")
  case Nil
  with assms show ?thesis by (simp add: handleAddSubTask_def Let_def)
next
  case (Cons s rest)
  let ?M = "Max (planEndDate ` set (siblingTasks tasks parentId))"
  have m: "maxEndDate (siblingTasks tasks parentId) (planEndDate s) = ?M"
    by (rule maxEndDate_siblings [OF Cons])
  have step: "(n + day_ms) div day_ms = n div day_ms + 1" for n
    using div_day_shift [of n 1] by simp
  show ?thesis
  proof (cases "parseISO ?M")
    case Invalid_Date
    with assms Cons m show ?thesis
      by (simp add: handleAddSubTask_def Let_def addDays_def format_ymd_def)
  next
    case (Time n)
    with assms Cons m step show ?thesis
      by (simp add: handleAddSubTask_def Let_def addDays_def format_ymd_def)
  qed
qed

text \<open>
  A group whose children end on 2024-01-31 and 2024-02-10; the same group with an undated
  child only; without children; without children and without a planned start (today being
  2024-01-10).
\<close>

theorem subtask_default_start_witness:
  "map init_planStartDate
     [the (handleAddSubTask (now sample_env) [sample_group, sample_child_a, sample_child_b] ''g1''),
      the (handleAddSubTask (now sample_env) [sample_group, undated_child] ''g1''),
      the (handleAddSubTask (now sample_env) [sample_group] ''g1''),
      the (handleAddSubTask (now sample_env) [sample_group \<lparr> planStartDate := [] \<rparr>] ''g1'')]
   = [''2024-02-11'', [], ''2024-01-01'', ''2024-01-10'']
   \<and> init_category (the (handleAddSubTask (now sample_env)
        [sample_group, sample_child_a, sample_child_b] ''g1'')) = ''Structure''
   \<and> init_subcategory (the (handleAddSubTask (now sample_env)
        [sample_group, sample_child_a, sample_child_b] ''g1'')) = ''Concrete''"
proof -
  let ?t1 = "[sample_group, sample_child_a, sample_child_b]"
  let ?t2 = "[sample_group, undated_child]"
  let ?t3 = "[sample_group]"
  let ?t4 = "[sample_group \<lparr> planStartDate := [] \<rparr>]"
  have f: "List.find (\<lambda>t. task_id t = ''g1'') ?t1 = Some sample_group"
    "List.find (\<lambda>t. task_id t = ''g1'') ?t2 = Some sample_group"
    "List.find (\<lambda>t. task_id t = ''g1'') ?t3 = Some sample_group"
    "List.find (\<lambda>t. task_id t = ''g1'') ?t4 = Some (sample_group \<lparr> planStartDate := [] \<rparr>)"
    by code_simp+
  have s: "siblingTasks ?t1 ''g1'' \<noteq> []" "siblingTasks ?t2 ''g1'' \<noteq> []"
    "siblingTasks ?t3 ''g1'' = []" "siblingTasks ?t4 ''g1'' = []"
    by code_simp+
  have p: "parseISO (Max (planEndDate ` set (siblingTasks ?t1 ''g1''))) = Time (19763 * day_ms)"
    "parseISO (Max (planEndDate ` set (siblingTasks ?t2 ''g1''))) = Invalid_Date"
    "Max (planEndDate ` set (siblingTasks ?t2 ''g1'')) = []"
    by code_simp+
  have v: "format_time (19763 * day_ms + day_ms) = ''2024-02-11''"
    "format_time (now sample_env) = ''2024-01-10''"
    "planStartDate sample_group = ''2024-01-01''" "category sample_group = ''Structure''"
    "subcategory sample_group = Some ''Concrete''"
    by code_simp+
  from subtask_default_start [OF f(1), of "now sample_env"]
    subtask_default_start [OF f(2), of "now sample_env"]
    subtask_default_start [OF f(3), of "now sample_env"]
    subtask_default_start [OF f(4), of "now sample_env"]
  show ?thesis using s p v by auto
qed

end
